theory Spec2Isabelle
  imports Complex_Main "HOL-Library.Sublist"
begin

section \<open>Python values shared by both scripts\<close>

text \<open>
  The two scripts \<^verbatim>\<open>create_clip.py\<close> and \<^verbatim>\<open>chain_clips.py\<close> are embedded as
  state-passing functions. A raised Python exception is a value: \<open>Exception cls msg\<close>
  stands for an instance of a subclass \<open>cls\<close> of \<^verbatim>\<open>Exception\<close> whose \<^verbatim>\<open>str(e)\<close>
  is \<open>msg\<close>; \<open>SystemExit c\<close> is what \<^verbatim>\<open>sys.exit(c)\<close> raises, which is a
  \<^verbatim>\<open>BaseException\<close> but not an \<^verbatim>\<open>Exception\<close>. Python floats are modelled as
  real numbers (their range is modelled where an integer is converted to a float, their
  rounding is not), paths as strings in \<^verbatim>\<open>pathlib\<close>'s normal form, and console
  output (\<^verbatim>\<open>print\<close>) is not modelled.
\<close>

type_synonym path = string
type_synonym bytes = string

datatype exn = Exception string string | SystemExit int

datatype 'a outcome = Returned 'a | Raised exn

text \<open>\<^verbatim>\<open>needle in haystack\<close> on Python strings.\<close>

fun str_contains :: "string \<Rightarrow> string \<Rightarrow> bool" where
  "str_contains needle [] = (needle = [])"
| "str_contains needle (c # cs) = (prefix needle (c # cs) \<or> str_contains needle cs)"

text \<open>
  \<^verbatim>\<open>Path.__truediv__\<close> on operands in normal form: an empty or \<^verbatim>\<open>.\<close> right operand
  leaves the path as it is, an absolute one replaces it, and nothing is put after the
  current directory or the root but the operand itself.
\<close>

definition joinpath :: "path \<Rightarrow> string \<Rightarrow> path" where
  "joinpath d name =
     (if name = [] \<or> name = ''.'' then d
      else if take 1 name = ''/'' then name
      else if d = [] \<or> d = ''.'' then name
      else if d = ''/'' then d @ name
      else d @ ''/'' @ name)"

text \<open>A \<^verbatim>\<open>pathlib.Path\<close> defines neither \<^verbatim>\<open>__bool__\<close> nor \<^verbatim>\<open>__len__\<close>: it is always truthy.\<close>

definition Path_bool :: "path \<Rightarrow> bool" where
  "Path_bool p = True"

section \<open>\<^verbatim>\<open>create_clip.py\<close>: the retry decorator\<close>

text \<open>
  The world that \<^verbatim>\<open>create_clip.py\<close> acts on: the files it has written, the
  arguments of every \<^verbatim>\<open>time.sleep\<close> in order, the state \<open>ext\<close> of everything outside
  the process (the remote services, the random generator), and a count of how often
  line 42 of the decorator has called a decorated function.
\<close>

record 'x world =
  invocations :: nat
  sleeps :: "real list"
  files :: "path \<rightharpoonup> bytes"
  ext :: 'x

text \<open>
  Lines 27 to 29. \<^verbatim>\<open>MAX_RETRIES\<close> is the value the global has until \<^verbatim>\<open>main\<close> replaces
  it; the functions below take the current value as an argument.
\<close>

definition MAX_RETRIES :: int where "MAX_RETRIES = 8"
definition BASE_DELAY :: int where "BASE_DELAY = 5"
definition MAX_DELAY :: int where "MAX_DELAY = 120"

text \<open>Line 45: the test that classifies an exception as a rate-limit signal.\<close>

definition rate_limited :: "string \<Rightarrow> bool" where
  "rate_limited error_str \<longleftrightarrow>
     str_contains ''429'' error_str \<or> str_contains ''RESOURCE_EXHAUSTED'' error_str"

text \<open>
  Adding an \<^verbatim>\<open>int\<close> to a \<^verbatim>\<open>float\<close> converts the integer first. The conversion
  raises \<^verbatim>\<open>OverflowError\<close> when the integer rounds to a value beyond the largest
  double, \<open>2 ^ 1024 - 2 ^ 971\<close>: that is from \<open>2 ^ 1024 - 2 ^ 970\<close> on. Below that bound
  the float is taken to be the integer itself (rounding is not modelled).
\<close>

definition float_limit :: int where
  "float_limit = 2 ^ 1024 - 2 ^ 970"

definition int_to_float :: "int \<Rightarrow> real outcome" where
  "int_to_float n =
     (if \<bar>n\<bar> < float_limit then Returned (real_of_int n)
      else Raised (Exception ''OverflowError'' ''int too large to convert to float''))"

text \<open>
  Line 47, with \<open>u\<close> the value drawn by \<^verbatim>\<open>random.uniform(0, 2)\<close>: the integer
  \<^verbatim>\<open>BASE_DELAY * (2 ** attempt)\<close> is converted and added to \<open>u\<close>, and the smaller of
  the sum and \<^verbatim>\<open>MAX_DELAY\<close> is the delay. From attempt index 1022 on the conversion
  raises.
\<close>

definition backoff_delay :: "nat \<Rightarrow> real \<Rightarrow> real outcome" where
  "backoff_delay attempt u =
     (case int_to_float (BASE_DELAY * 2 ^ attempt) of
        Raised e \<Rightarrow> Raised e
      | Returned base \<Rightarrow> Returned (min (base + u) (real_of_int MAX_DELAY)))"

text \<open>
  Lines 46 to 49: draw the jitter, compute the delay, sleep. \<open>uniform a b\<close> is
  \<^verbatim>\<open>random.uniform(a, b)\<close>, which advances the generator held in \<open>ext\<close>; it is called
  before the addition that may raise.
\<close>

definition backoff ::
  "(real \<Rightarrow> real \<Rightarrow> 'x \<Rightarrow> real \<times> 'x) \<Rightarrow> nat \<Rightarrow> 'x world \<Rightarrow> unit outcome \<times> 'x world" where
  "backoff uniform attempt w =
     (case uniform 0 2 (ext w) of
        (u, x) \<Rightarrow>
          (case backoff_delay attempt u of
             Raised e \<Rightarrow> (Raised e, w\<lparr>ext := x\<rparr>)
           | Returned delay \<Rightarrow> (Returned (), w\<lparr>sleeps := sleeps w @ [delay], ext := x\<rparr>)))"

text \<open>
  Line 53, \<^verbatim>\<open>raise last_exception\<close>. When the loop body never ran the variable is
  still \<^verbatim>\<open>None\<close>, and raising \<^verbatim>\<open>None\<close> is a \<^verbatim>\<open>TypeError\<close>.
\<close>

definition raise_last :: "exn option \<Rightarrow> 'a outcome" where
  "raise_last last_exception =
     (case last_exception of
        None \<Rightarrow> Raised (Exception ''TypeError'' ''exceptions must derive from BaseException'')
      | Some e \<Rightarrow> Raised e)"

text \<open>
  The \<^verbatim>\<open>for attempt in range(MAX_RETRIES)\<close> loop of \<^verbatim>\<open>wrapper\<close>, over the attempt
  indices still to run. A decorated function takes the world and gives an outcome and
  the new world, or \<open>None\<close> when it does not return (one of them polls without a bound).
  \<^verbatim>\<open>except Exception\<close> does not catch \<open>SystemExit\<close>, and an exception raised inside
  the handler (by line 47) leaves the decorator.
\<close>

fun retry_loop ::
  "(real \<Rightarrow> real \<Rightarrow> 'x \<Rightarrow> real \<times> 'x) \<Rightarrow> ('x world \<Rightarrow> ('a outcome \<times> 'x world) option) \<Rightarrow>
   nat list \<Rightarrow> exn option \<Rightarrow> 'x world \<Rightarrow> ('a outcome \<times> 'x world) option" where
  "retry_loop uniform func [] last_exception w = Some (raise_last last_exception, w)"
| "retry_loop uniform func (attempt # rest) last_exception w =
     (case func w of
        None \<Rightarrow> None
      | Some (r, w1) \<Rightarrow>
          (let w2 = w1\<lparr>invocations := Suc (invocations w)\<rparr> in
           case r of
             Returned v \<Rightarrow> Some (Returned v, w2)
           | Raised (SystemExit c) \<Rightarrow> Some (Raised (SystemExit c), w2)
           | Raised (Exception cls error_str) \<Rightarrow>
               if rate_limited error_str
               then (case backoff uniform attempt w2 of
                       (Raised e, w3) \<Rightarrow> Some (Raised e, w3)
                     | (Returned _, w3) \<Rightarrow>
                         retry_loop uniform func rest (Some (Exception cls error_str)) w3)
               else Some (Raised (Exception cls error_str), w2)))"

text \<open>
  \<^verbatim>\<open>retry_on_429(func)\<close> called with the current value of the global \<^verbatim>\<open>MAX_RETRIES\<close>,
  which \<^verbatim>\<open>main\<close> overwrites with \<^verbatim>\<open>--max-retries\<close> (any integer; \<^verbatim>\<open>range\<close> of a
  non-positive one is empty).
\<close>

definition retry_on_429 ::
  "int \<Rightarrow> (real \<Rightarrow> real \<Rightarrow> 'x \<Rightarrow> real \<times> 'x) \<Rightarrow> ('x world \<Rightarrow> ('a outcome \<times> 'x world) option) \<Rightarrow>
   'x world \<Rightarrow> ('a outcome \<times> 'x world) option" where
  "retry_on_429 max_retries uniform func w =
     retry_loop uniform func [0 ..< nat max_retries] None w"

section \<open>\<^verbatim>\<open>create_clip.py\<close>: the generation stages\<close>

subsection \<open>The remote services and their data\<close>

text \<open>
  What the \<^verbatim>\<open>google.genai\<close> client returns, reduced to the attributes the script
  reads. An image response is the list of its candidates, each the list
  \<^verbatim>\<open>content.parts\<close>; a part may carry \<^verbatim>\<open>inline_data\<close>. A video operation has the
  flag \<^verbatim>\<open>done\<close> and, once finished, \<^verbatim>\<open>response\<close> and \<^verbatim>\<open>result\<close>; each generated
  video has \<^verbatim>\<open>video_bytes\<close> (raw bytes or a base64 string) and \<^verbatim>\<open>uri\<close>, either of
  which may be \<^verbatim>\<open>None\<close>.
\<close>

record blob =
  mime_type :: string
  data :: bytes

record part =
  inline_data :: "blob option"

record content_response =
  candidates :: "part list list"

datatype media = Raw bytes | Base64 string

record video_file =
  video_bytes :: "media option"
  uri :: "string option"

record videos_response =
  generated_videos :: "video_file option list"

record operation =
  op_done :: bool
  response :: "videos_response option"
  result :: "videos_response option"

datatype content = Text string | From_bytes bytes string

record videos_config =
  config_aspect_ratio :: string
  duration_seconds :: int
  generate_audio :: bool
  resolution :: string
  last_frame :: bytes

record client =
  project :: "string option"
  location :: string
  credentials :: string

text \<open>
  Everything outside the script, acting on the outside state \<open>'x\<close>: the environment
  variables, the credential loader, \<^verbatim>\<open>random.uniform\<close>, the three remote calls
  (\<^verbatim>\<open>models.generate_content\<close> with model, contents and aspect ratio,
  \<^verbatim>\<open>models.generate_videos\<close> with model, prompt, first image and configuration,
  \<^verbatim>\<open>operations.get\<close>) and \<^verbatim>\<open>base64.b64decode\<close> (with the exception it raises when it
  rejects its input).
\<close>

record 'x services =
  environ :: "string \<Rightarrow> string option"
  from_service_account_file :: "string option \<Rightarrow> 'x \<Rightarrow> string outcome \<times> 'x"
  random_uniform :: "real \<Rightarrow> real \<Rightarrow> 'x \<Rightarrow> real \<times> 'x"
  generate_content ::
    "client \<Rightarrow> string \<Rightarrow> content list \<Rightarrow> string \<Rightarrow> 'x \<Rightarrow> content_response outcome \<times> 'x"
  generate_videos ::
    "client \<Rightarrow> string \<Rightarrow> string \<Rightarrow> bytes \<Rightarrow> videos_config \<Rightarrow> 'x \<Rightarrow> operation outcome \<times> 'x"
  operations_get :: "client \<Rightarrow> operation \<Rightarrow> 'x \<Rightarrow> operation outcome \<times> 'x"
  b64decode :: "string \<Rightarrow> bytes outcome"

text \<open>A call of an outside operation from inside the script's world.\<close>

definition call :: "('x \<Rightarrow> 'a \<times> 'x) \<Rightarrow> 'x world \<Rightarrow> 'a \<times> 'x world" where
  "call f w = (case f (ext w) of (r, x) \<Rightarrow> (r, w\<lparr>ext := x\<rparr>))"

text \<open>Sequencing: an exception or a call that does not return ends the sequence.\<close>

definition and_then ::
  "('a outcome \<times> 's) option \<Rightarrow> ('a \<Rightarrow> 's \<Rightarrow> ('b outcome \<times> 's) option) \<Rightarrow>
   ('b outcome \<times> 's) option" where
  "and_then m f =
     (case m of
        None \<Rightarrow> None
      | Some (Raised e, s) \<Rightarrow> Some (Raised e, s)
      | Some (Returned v, s) \<Rightarrow> f v s)"

text \<open>\<^verbatim>\<open>open(p, "rb").read()\<close> and \<^verbatim>\<open>types.Image.from_file(location=p)\<close>.\<close>

definition read_file :: "path \<Rightarrow> 'x world \<Rightarrow> bytes outcome \<times> 'x world" where
  "read_file p w =
     (case files w p of
        None \<Rightarrow> (Raised (Exception ''FileNotFoundError'' (''No such file or directory: '' @ p)), w)
      | Some b \<Rightarrow> (Returned b, w))"

text \<open>\<^verbatim>\<open>not s\<close> for a value that is a string or \<^verbatim>\<open>None\<close>.\<close>

definition falsy :: "string option \<Rightarrow> bool" where
  "falsy s = (case s of None \<Rightarrow> True | Some v \<Rightarrow> v = [])"

subsection \<open>Lines 57 to 96: the two clients\<close>

definition setup_image_client :: "'x services \<Rightarrow> 'x world \<Rightarrow> client outcome \<times> 'x world" where
  "setup_image_client sys w =
     (let project_id = environ sys ''VERTEX_AI_PROJECT_ID'';
          service_account_path = environ sys ''VERTEX_AI_SERVICE_ACCOUNT_JSON''
      in if falsy project_id \<or> falsy service_account_path then (Raised (SystemExit 1), w)
         else case call (from_service_account_file sys service_account_path) w of
                (Raised e, w1) \<Rightarrow> (Raised e, w1)
              | (Returned c, w1) \<Rightarrow>
                  (Returned \<lparr>project = project_id, location = ''global'', credentials = c\<rparr>, w1))"

definition setup_video_client :: "'x services \<Rightarrow> 'x world \<Rightarrow> client outcome \<times> 'x world" where
  "setup_video_client sys w =
     (let project_id = environ sys ''VERTEX_AI_PROJECT_ID'';
          service_account_path = environ sys ''VERTEX_AI_SERVICE_ACCOUNT_JSON''
      in case call (from_service_account_file sys service_account_path) w of
           (Raised e, w1) \<Rightarrow> (Raised e, w1)
         | (Returned c, w1) \<Rightarrow>
             (Returned \<lparr>project = project_id, location = ''us-central1'', credentials = c\<rparr>, w1))"

subsection \<open>Lines 99 to 161: the two image stages\<close>

text \<open>
  Lines 116 to 125 (and 152 to 161): write the first part that is an image and return
  the path; with no such part, \<^verbatim>\<open>sys.exit(1)\<close>.
\<close>

fun save_first_image :: "part list \<Rightarrow> path \<Rightarrow> 'x world \<Rightarrow> path outcome \<times> 'x world" where
  "save_first_image [] output_path w = (Raised (SystemExit 1), w)"
| "save_first_image (p # ps) output_path w =
     (case inline_data p of
        None \<Rightarrow> save_first_image ps output_path w
      | Some d \<Rightarrow>
          if prefix ''image/'' (mime_type d)
          then (Returned output_path, w\<lparr>files := (files w)(output_path \<mapsto> data d)\<rparr>)
          else save_first_image ps output_path w)"

text \<open>\<^verbatim>\<open>response.candidates[0].content.parts\<close>, then the loop above.\<close>

definition save_response_image ::
  "content_response outcome \<times> 'x world \<Rightarrow> path \<Rightarrow> path outcome \<times> 'x world" where
  "save_response_image r output_path =
     (case r of
        (Raised e, w) \<Rightarrow> (Raised e, w)
      | (Returned resp, w) \<Rightarrow>
          (case candidates resp of
             [] \<Rightarrow> (Raised (Exception ''IndexError'' ''list index out of range''), w)
           | parts # _ \<Rightarrow> save_first_image parts output_path w))"

definition generate_image_body ::
  "'x services \<Rightarrow> client \<Rightarrow> string \<Rightarrow> string \<Rightarrow> path \<Rightarrow> 'x world \<Rightarrow> path outcome \<times> 'x world" where
  "generate_image_body sys c prompt aspect_ratio output_path w =
     save_response_image
       (call (generate_content sys c ''gemini-3-pro-image-preview'' [Text prompt] aspect_ratio) w)
       output_path"

definition generate_variation_body ::
  "'x services \<Rightarrow> client \<Rightarrow> path \<Rightarrow> string \<Rightarrow> string \<Rightarrow> path \<Rightarrow> 'x world \<Rightarrow>
   path outcome \<times> 'x world" where
  "generate_variation_body sys c reference_path prompt aspect_ratio output_path w =
     (case read_file reference_path w of
        (Raised e, w1) \<Rightarrow> (Raised e, w1)
      | (Returned reference_bytes, w1) \<Rightarrow>
          save_response_image
            (call (generate_content sys c ''gemini-3-pro-image-preview''
                     [From_bytes reference_bytes ''image/png'', Text prompt] aspect_ratio) w1)
            output_path)"

text \<open>The decorated functions, as \<^verbatim>\<open>@retry_on_429\<close> leaves them.\<close>

definition generate_image ::
  "'x services \<Rightarrow> int \<Rightarrow> client \<Rightarrow> string \<Rightarrow> string \<Rightarrow> path \<Rightarrow> 'x world \<Rightarrow>
   (path outcome \<times> 'x world) option" where
  "generate_image sys max_retries c prompt aspect_ratio output_path =
     retry_on_429 max_retries (random_uniform sys)
       (\<lambda>w. Some (generate_image_body sys c prompt aspect_ratio output_path w))"

definition generate_variation ::
  "'x services \<Rightarrow> int \<Rightarrow> client \<Rightarrow> path \<Rightarrow> string \<Rightarrow> string \<Rightarrow> path \<Rightarrow> 'x world \<Rightarrow>
   (path outcome \<times> 'x world) option" where
  "generate_variation sys max_retries c reference_path prompt aspect_ratio output_path =
     retry_on_429 max_retries (random_uniform sys)
       (\<lambda>w. Some (generate_variation_body sys c reference_path prompt aspect_ratio output_path w))"

subsection \<open>Lines 164 to 219: the video stage\<close>

text \<open>
  Lines 193 to 198: \<^verbatim>\<open>while not operation.done\<close>, sleep 15 seconds and fetch the
  operation again. The loop has no bound; \<open>None\<close> is the run in which it never ends.
\<close>

partial_function (option) poll_operation ::
  "'x services \<Rightarrow> client \<Rightarrow> operation \<Rightarrow> 'x world \<Rightarrow> (operation outcome \<times> 'x world) option" where
  "poll_operation sys c operation w =
     (if op_done operation then Some (Returned operation, w)
      else case call (operations_get sys c operation) (w\<lparr>sleeps := sleeps w @ [15]\<rparr>) of
             (Raised e, w1) \<Rightarrow> Some (Raised e, w1)
           | (Returned operation', w1) \<Rightarrow> poll_operation sys c operation' w1)"

text \<open>Truthiness of \<^verbatim>\<open>video.video_bytes\<close>: not \<^verbatim>\<open>None\<close> and not empty.\<close>

definition truthy_media :: "media option \<Rightarrow> bool" where
  "truthy_media m =
     (case m of None \<Rightarrow> False | Some (Raw b) \<Rightarrow> b \<noteq> [] | Some (Base64 s) \<Rightarrow> s \<noteq> [])"

text \<open>
  Lines 205 to 216, for the first generated video. With bytes the file is written and
  the path returned; with only a URI the function returns \<^verbatim>\<open>None\<close> (line 216); with
  neither, control falls through to line 219.
\<close>

definition save_video ::
  "'x services \<Rightarrow> video_file option \<Rightarrow> path \<Rightarrow> 'x world \<Rightarrow> path option outcome \<times> 'x world" where
  "save_video sys video output_path w =
     (case video of
        None \<Rightarrow> (Returned None, w)
      | Some v \<Rightarrow>
          if truthy_media (video_bytes v) then
            (case video_bytes v of
               Some (Base64 s) \<Rightarrow>
                 (case b64decode sys s of
                    Raised e \<Rightarrow> (Raised e, w)
                  | Returned b \<Rightarrow>
                      (Returned (Some output_path), w\<lparr>files := (files w)(output_path \<mapsto> b)\<rparr>))
             | Some (Raw b) \<Rightarrow>
                 (Returned (Some output_path), w\<lparr>files := (files w)(output_path \<mapsto> b)\<rparr>)
             | None \<Rightarrow> (Returned None, w))
          else if \<not> falsy (uri v) then (Returned None, w)
          else (Returned None, w))"

text \<open>
  Lines 200 to 219 on the finished operation. \<^verbatim>\<open>operation.result\<close> being \<^verbatim>\<open>None\<close>
  while \<^verbatim>\<open>operation.response\<close> is set makes \<^verbatim>\<open>result.generated_videos\<close> an
  \<^verbatim>\<open>AttributeError\<close>. Line 219 returns \<^verbatim>\<open>None\<close> after printing an error.
\<close>

definition extract_video ::
  "'x services \<Rightarrow> operation \<Rightarrow> path \<Rightarrow> 'x world \<Rightarrow> path option outcome \<times> 'x world" where
  "extract_video sys operation output_path w =
     (case response operation of
        None \<Rightarrow> (Returned None, w)
      | Some _ \<Rightarrow>
          (case result operation of
             None \<Rightarrow>
               (Raised (Exception ''AttributeError''
                  ''.NoneType. object has no attribute .generated_videos.''), w)
           | Some res \<Rightarrow>
               (case generated_videos res of
                  [] \<Rightarrow> (Returned None, w)
                | video # _ \<Rightarrow> save_video sys video output_path w)))"

definition generate_video_body ::
  "'x services \<Rightarrow> client \<Rightarrow> path \<Rightarrow> path \<Rightarrow> string \<Rightarrow> string \<Rightarrow> int \<Rightarrow> path \<Rightarrow> 'x world \<Rightarrow>
   (path option outcome \<times> 'x world) option" where
  "generate_video_body sys c first_frame last_frame' prompt aspect_ratio duration output_path w =
     and_then (Some (read_file first_frame w)) (\<lambda>first_image w1.
     and_then (Some (read_file last_frame' w1)) (\<lambda>last_image w2.
     and_then
       (Some (call (generate_videos sys c ''veo-3.1-generate-001'' prompt first_image
           \<lparr>config_aspect_ratio = aspect_ratio, duration_seconds = duration,
            generate_audio = False, resolution = ''720p'', last_frame = last_image\<rparr>) w2))
       (\<lambda>operation w3.
     and_then (poll_operation sys c operation w3) (\<lambda>operation' w4.
       Some (extract_video sys operation' output_path w4)))))"

definition generate_video ::
  "'x services \<Rightarrow> int \<Rightarrow> client \<Rightarrow> path \<Rightarrow> path \<Rightarrow> string \<Rightarrow> string \<Rightarrow> int \<Rightarrow> path \<Rightarrow>
   'x world \<Rightarrow> (path option outcome \<times> 'x world) option" where
  "generate_video sys max_retries c first_frame last_frame' prompt aspect_ratio duration output_path =
     retry_on_429 max_retries (random_uniform sys)
       (generate_video_body sys c first_frame last_frame' prompt aspect_ratio duration output_path)"

subsection \<open>Lines 222 to 281: \<^verbatim>\<open>create_clip\<close>\<close>

text \<open>
  The configuration dictionary with its four required keys and the three that
  \<^verbatim>\<open>config.get\<close> reads with a default.
\<close>

record config =
  clip_id :: string
  start_prompt :: string
  end_prompt :: string
  transition_prompt :: string
  aspect_ratio :: "string option"
  duration :: "int option"
  output_dir :: "string option"

text \<open>
  The stages in order. The values the three stage functions return are not bound to
  any name (lines 259, 265, 270), so \<^verbatim>\<open>video_path\<close> in the returned dictionary is the
  path computed on line 269. The dictionary is an association list; a value \<open>None\<close> is
  Python's \<^verbatim>\<open>None\<close>. Files live in a flat map from paths to contents, in which
  \<^verbatim>\<open>clip_dir.mkdir\<close> (line 244) has nothing to do.
\<close>

definition create_clip ::
  "'x services \<Rightarrow> int \<Rightarrow> config \<Rightarrow> 'x world \<Rightarrow>
   ((string \<times> string option) list outcome \<times> 'x world) option" where
  "create_clip sys max_retries cfg w =
     (let aspect = (case aspect_ratio cfg of None \<Rightarrow> ''9:16'' | Some a \<Rightarrow> a);
          dur = (case duration cfg of None \<Rightarrow> 4 | Some d \<Rightarrow> d);
          out = (case output_dir cfg of None \<Rightarrow> ''output'' | Some d \<Rightarrow> d);
          clip_dir = joinpath out (clip_id cfg);
          start_path = joinpath clip_dir ''start.png'';
          end_path = joinpath clip_dir ''end.png'';
          consistency_prompt =
            ''Generate the exact same scene/person from the reference image, but now: '' @
            end_prompt cfg @ ''. Maintain visual consistency.'';
          video_path = joinpath clip_dir ''clip.mp4''
      in
      and_then (Some (setup_image_client sys w)) (\<lambda>image_client w1.
      and_then (Some (setup_video_client sys w1)) (\<lambda>video_client w2.
      and_then (generate_image sys max_retries image_client (start_prompt cfg) aspect start_path w2)
        (\<lambda>_ w3.
      and_then (generate_variation sys max_retries image_client start_path consistency_prompt
                  aspect end_path w3)
        (\<lambda>_ w4.
      and_then (generate_video sys max_retries video_client start_path end_path
                  (transition_prompt cfg) aspect dur video_path w4)
        (\<lambda>_ w5.
      Some (Returned
              [(''clip_id'', Some (clip_id cfg)),
               (''start'', Some start_path),
               (''end'', Some end_path),
               (''video'', if Path_bool video_path then Some video_path else None)],
            w5)))))))"

section \<open>\<^verbatim>\<open>chain_clips.py\<close>\<close>

subsection \<open>The operating system\<close>

text \<open>
  What \<^verbatim>\<open>subprocess.run(cmd, capture_output=True, text=True)\<close> returns.
\<close>

record completed =
  returncode :: int
  stdout :: string
  stderr :: string

text \<open>
  The operating system as the script uses it, acting on an outside state \<open>'x\<close>:
  running a command (an exception when the program cannot be started), the file system
  queries \<^verbatim>\<open>Path.exists\<close>, \<^verbatim>\<open>Path.glob("*.mp4")\<close>, \<^verbatim>\<open>Path.absolute\<close> and
  \<^verbatim>\<open>Path.stat().st_size\<close>, a temporary file created with a given text (its name is
  returned), \<^verbatim>\<open>os.unlink\<close> and \<^verbatim>\<open>Path.mkdir(parents=True, exist_ok=True)\<close>. The last
  two fields are Python's \<^verbatim>\<open>float(s)\<close> (\<open>None\<close> for \<^verbatim>\<open>ValueError\<close>) and the text that
  an f-string gives for a float.
\<close>

record 'x system =
  subprocess_run :: "string list \<Rightarrow> 'x \<Rightarrow> completed outcome \<times> 'x"
  path_exists :: "path \<Rightarrow> 'x \<Rightarrow> bool"
  glob_mp4 :: "path \<Rightarrow> 'x \<Rightarrow> path list"
  absolute :: "path \<Rightarrow> 'x \<Rightarrow> path"
  st_size :: "path \<Rightarrow> 'x \<Rightarrow> nat option"
  named_temporary_file :: "string \<Rightarrow> 'x \<Rightarrow> path \<times> 'x"
  unlink :: "path \<Rightarrow> 'x \<Rightarrow> 'x"
  mkdir :: "path \<Rightarrow> 'x \<Rightarrow> unit outcome \<times> 'x"
  float_of_str :: "string \<Rightarrow> real option"
  str_of_float :: "real \<Rightarrow> string"

text \<open>
  The script's world: the argument vectors of all commands run so far, in order, and
  the outside state.
\<close>

record 'x session =
  commands :: "string list list"
  outside :: 'x

definition run :: "'x system \<Rightarrow> string list \<Rightarrow> 'x session \<Rightarrow> completed outcome \<times> 'x session" where
  "run sys cmd w =
     (case subprocess_run sys cmd (outside w) of
        (r, x) \<Rightarrow> (r, \<lparr>commands = commands w @ [cmd], outside = x\<rparr>))"

text \<open>
  Lines 76 to 80, 129 to 133 and 165 to 169: run the command and leave with
  \<^verbatim>\<open>sys.exit(1)\<close> on a non-zero return code.
\<close>

definition run_or_exit :: "'x system \<Rightarrow> string list \<Rightarrow> 'x session \<Rightarrow> unit outcome \<times> 'x session" where
  "run_or_exit sys cmd w =
     (case run sys cmd w of
        (Raised e, w1) \<Rightarrow> (Raised e, w1)
      | (Returned r, w1) \<Rightarrow>
          if returncode r \<noteq> 0 then (Raised (SystemExit 1), w1) else (Returned (), w1))"

subsection \<open>Strings and paths\<close>

text \<open>The characters that \<^verbatim>\<open>str.strip()\<close> removes, among the ASCII ones.\<close>

definition is_space :: "char \<Rightarrow> bool" where
  "is_space c \<longleftrightarrow>
     c \<in> set [CHR '' '', CHR 0x09, CHR 0x0A, CHR 0x0B, CHR 0x0C, CHR 0x0D,
               CHR 0x1C, CHR 0x1D, CHR 0x1E, CHR 0x1F]"

definition strip :: "string \<Rightarrow> string" where
  "strip s = rev (dropWhile is_space (rev (dropWhile is_space s)))"

text \<open>\<^verbatim>\<open>str(n)\<close> for a natural number.\<close>

definition digit :: "nat \<Rightarrow> char" where
  "digit d = ''0123456789'' ! d"

fun str_of_nat :: "nat \<Rightarrow> string" where
  "str_of_nat n = (if n < 10 then [digit n] else str_of_nat (n div 10) @ [digit (n mod 10)])"

declare str_of_nat.simps [simp del]

text \<open>\<^verbatim>\<open>Path.parent\<close>.\<close>

definition parent :: "path \<Rightarrow> path" where
  "parent p =
     (let d = rev (drop 1 (dropWhile (\<lambda>c. c \<noteq> CHR ''/'') (rev p)))
      in if d = [] then (if CHR ''/'' \<in> set p then ''/'' else ''.'') else d)"

subsection \<open>Lines 23 to 51: the tool check and the discovery of a clip's video\<close>

definition check_ffmpeg :: "'x system \<Rightarrow> 'x session \<Rightarrow> unit outcome \<times> 'x session" where
  "check_ffmpeg sys w =
     (case run sys [''ffmpeg'', ''-version''] w of
        (Raised (Exception cls msg), w1) \<Rightarrow>
          if cls = ''FileNotFoundError'' then (Raised (SystemExit 1), w1)
          else (Raised (Exception cls msg), w1)
      | (Raised (SystemExit c), w1) \<Rightarrow> (Raised (SystemExit c), w1)
      | (Returned r, w1) \<Rightarrow>
          if returncode r \<noteq> 0 then (Raised (SystemExit 1), w1) else (Returned (), w1))"

fun first_existing :: "'x system \<Rightarrow> path \<Rightarrow> string list \<Rightarrow> 'x \<Rightarrow> path option" where
  "first_existing sys clip_dir [] x = None"
| "first_existing sys clip_dir (name # names) x =
     (let video_path = joinpath clip_dir name
      in if path_exists sys video_path x then Some video_path
         else first_existing sys clip_dir names x)"

definition find_clip_video :: "'x system \<Rightarrow> path \<Rightarrow> 'x \<Rightarrow> path outcome" where
  "find_clip_video sys clip_dir x =
     (case first_existing sys clip_dir [''clip.mp4'', ''video.mp4''] x of
        Some video_path \<Rightarrow> Returned video_path
      | None \<Rightarrow>
          (case glob_mp4 sys clip_dir x of
             mp4 # _ \<Rightarrow> Returned mp4
           | [] \<Rightarrow> Raised (SystemExit 1)))"

subsection \<open>Lines 54 to 171: the three ways to concatenate\<close>

definition concat_list_text :: "'x system \<Rightarrow> path list \<Rightarrow> 'x \<Rightarrow> string" where
  "concat_list_text sys clip_paths x =
     concat (map (\<lambda>clip. ''file '' @ [CHR 0x27] @ absolute sys clip x @ [CHR 0x27, CHR 0x0A])
               clip_paths)"

definition concat_simple_cmd :: "path \<Rightarrow> path \<Rightarrow> string list" where
  "concat_simple_cmd list_file output_path =
     [''ffmpeg'', ''-y'', ''-f'', ''concat'', ''-safe'', ''0'', ''-i'', list_file,
      ''-c'', ''copy'', output_path]"

text \<open>
  \<^verbatim>\<open>concat_simple\<close>: the list file is removed in the \<^verbatim>\<open>finally\<close> clause, whatever
  the command did.
\<close>

definition concat_simple ::
  "'x system \<Rightarrow> path list \<Rightarrow> path \<Rightarrow> 'x session \<Rightarrow> unit outcome \<times> 'x session" where
  "concat_simple sys clip_paths output_path w =
     (case named_temporary_file sys (concat_list_text sys clip_paths (outside w)) (outside w) of
        (list_file, x) \<Rightarrow>
          (case run_or_exit sys (concat_simple_cmd list_file output_path) (w\<lparr>outside := x\<rparr>) of
             (r, w1) \<Rightarrow> (r, w1\<lparr>outside := unlink sys list_file (outside w1)\<rparr>)))"

text \<open>
  The \<^verbatim>\<open>xfade\<close> filter of lines 101, 116 and 117. The offset is the text that the
  source has after \<^verbatim>\<open>offset=\<close>.
\<close>

definition xfade :: "string \<Rightarrow> string \<Rightarrow> string \<Rightarrow> string \<Rightarrow> string \<Rightarrow> string" where
  "xfade a b fade offset out =
     ''['' @ a @ '']['' @ b @ '']xfade=transition=fade:duration='' @ fade @
     '':offset='' @ offset @ ''['' @ out @ '']''"

definition encode_options :: "path \<Rightarrow> string list" where
  "encode_options output_path =
     [''-map'', ''[v]'', ''-c:v'', ''libx264'', ''-preset'', ''fast'', ''-crf'', ''23'', output_path]"

text \<open>Lines 94 to 126: the command for two or three clips, and the exit for any other number.\<close>

definition crossfade_cmd ::
  "'x system \<Rightarrow> path list \<Rightarrow> path \<Rightarrow> real \<Rightarrow> string list outcome" where
  "crossfade_cmd sys clip_paths output_path fade_duration =
     (case clip_paths of
        [v1, v2] \<Rightarrow>
          Returned ([''ffmpeg'', ''-y'', ''-i'', v1, ''-i'', v2, ''-filter_complex'',
             xfade ''0:v'' ''1:v'' (str_of_float sys fade_duration) ''3.5'' ''v'']
            @ encode_options output_path)
      | [v1, v2, v3] \<Rightarrow>
          Returned ([''ffmpeg'', ''-y'', ''-i'', v1, ''-i'', v2, ''-i'', v3, ''-filter_complex'',
             xfade ''0:v'' ''1:v'' (str_of_float sys fade_duration) ''3.5'' ''v01'' @ '';'' @
             xfade ''v01'' ''2:v'' (str_of_float sys fade_duration) ''7'' ''v'']
            @ encode_options output_path)
      | _ \<Rightarrow> Raised (SystemExit 1))"

definition concat_with_crossfade ::
  "'x system \<Rightarrow> path list \<Rightarrow> path \<Rightarrow> real \<Rightarrow> 'x session \<Rightarrow> unit outcome \<times> 'x session" where
  "concat_with_crossfade sys clip_paths output_path fade_duration w =
     (case crossfade_cmd sys clip_paths output_path fade_duration of
        Raised e \<Rightarrow> (Raised e, w)
      | Returned cmd \<Rightarrow> run_or_exit sys cmd w)"

definition reencode_cmd :: "path list \<Rightarrow> path \<Rightarrow> string list" where
  "reencode_cmd clip_paths output_path =
     (let inputs = concat (map (\<lambda>clip. [''-i'', clip]) clip_paths);
          filter_inputs =
            concat (map (\<lambda>i. ''['' @ str_of_nat i @ '':v]'') [0 ..< length clip_paths]);
          filter_complex =
            filter_inputs @ ''concat=n='' @ str_of_nat (length clip_paths) @ '':v=1[v]''
      in [''ffmpeg'', ''-y''] @ inputs @ [''-filter_complex'', filter_complex]
         @ encode_options output_path)"

definition concat_with_reencode ::
  "'x system \<Rightarrow> path list \<Rightarrow> path \<Rightarrow> 'x session \<Rightarrow> unit outcome \<times> 'x session" where
  "concat_with_reencode sys clip_paths output_path w =
     run_or_exit sys (reencode_cmd clip_paths output_path) w"

subsection \<open>Lines 174 to 186: measuring a duration\<close>

definition ffprobe_cmd :: "path \<Rightarrow> string list" where
  "ffprobe_cmd video_path =
     [''ffprobe'', ''-v'', ''error'', ''-show_entries'', ''format=duration'',
      ''-of'', ''default=noprint_wrappers=1:nokey=1'', video_path]"

definition get_video_duration ::
  "'x system \<Rightarrow> path \<Rightarrow> 'x session \<Rightarrow> real outcome \<times> 'x session" where
  "get_video_duration sys video_path w =
     (case run sys (ffprobe_cmd video_path) w of
        (Raised e, w1) \<Rightarrow> (Raised e, w1)
      | (Returned r, w1) \<Rightarrow>
          if returncode r = 0 then
            (case float_of_str sys (strip (stdout r)) of
               None \<Rightarrow>
                 (Raised (Exception ''ValueError''
                    (''could not convert string to float: '' @ [CHR 0x27] @ strip (stdout r) @ [CHR 0x27])), w1)
             | Some seconds \<Rightarrow> (Returned seconds, w1))
          else (Returned 0, w1))"

subsection \<open>Lines 189 to 239: \<^verbatim>\<open>chain_clips\<close>\<close>

text \<open>
  The loop of lines 206 to 217 over the clip directories still to visit, with the
  paths found and the durations summed so far.
\<close>

fun collect_clips ::
  "'x system \<Rightarrow> path list \<Rightarrow> path list \<Rightarrow> real \<Rightarrow> 'x session \<Rightarrow>
   (path list \<times> real) outcome \<times> 'x session" where
  "collect_clips sys [] clip_paths total_duration w = (Returned (clip_paths, total_duration), w)"
| "collect_clips sys (clip_dir # rest) clip_paths total_duration w =
     (if \<not> path_exists sys clip_dir (outside w) then (Raised (SystemExit 1), w)
      else case find_clip_video sys clip_dir (outside w) of
             Raised e \<Rightarrow> (Raised e, w)
           | Returned video_path \<Rightarrow>
               (case get_video_duration sys video_path w of
                  (Raised e, w1) \<Rightarrow> (Raised e, w1)
                | (Returned seconds, w1) \<Rightarrow>
                    collect_clips sys rest (clip_paths @ [video_path])
                      (total_duration + seconds) w1))"

text \<open>Lines 224 to 229: the choice among the three concatenations.\<close>

definition concatenate ::
  "'x system \<Rightarrow> path list \<Rightarrow> path \<Rightarrow> real \<Rightarrow> bool \<Rightarrow> 'x session \<Rightarrow> unit outcome \<times> 'x session" where
  "concatenate sys clip_paths output_path crossfade reencode w =
     (if crossfade > 0 then concat_with_crossfade sys clip_paths output_path crossfade w
      else if reencode then concat_with_reencode sys clip_paths output_path w
      else concat_simple sys clip_paths output_path w)"

text \<open>
  Lines 231 to 239: measure the output again, read its size (a missing file makes
  \<^verbatim>\<open>stat\<close> raise), return the output path.
\<close>

definition report :: "'x system \<Rightarrow> path \<Rightarrow> 'x session \<Rightarrow> path outcome \<times> 'x session" where
  "report sys output_path w =
     (case get_video_duration sys output_path w of
        (Raised e, w1) \<Rightarrow> (Raised e, w1)
      | (Returned final_duration, w1) \<Rightarrow>
          (case st_size sys output_path (outside w1) of
             None \<Rightarrow>
               (Raised (Exception ''FileNotFoundError''
                  (''No such file or directory: '' @ output_path)), w1)
           | Some st \<Rightarrow> (Returned output_path, w1)))"

definition chain_clips ::
  "'x system \<Rightarrow> path list \<Rightarrow> path \<Rightarrow> real \<Rightarrow> bool \<Rightarrow> 'x session \<Rightarrow> path outcome \<times> 'x session" where
  "chain_clips sys clip_dirs output_path crossfade reencode w =
     (case collect_clips sys clip_dirs [] 0 w of
        (Raised e, w1) \<Rightarrow> (Raised e, w1)
      | (Returned (clip_paths, total_duration), w1) \<Rightarrow>
          (case mkdir sys (parent output_path) (outside w1) of
             (Raised e, x) \<Rightarrow> (Raised e, w1\<lparr>outside := x\<rparr>)
           | (Returned _, x) \<Rightarrow>
               (case concatenate sys clip_paths output_path crossfade reencode
                       (w1\<lparr>outside := x\<rparr>) of
                  (Raised e, w2) \<Rightarrow> (Raised e, w2)
                | (Returned _, w2) \<Rightarrow> report sys output_path w2)))"

subsection \<open>Lines 242 to 264: \<^verbatim>\<open>main\<close>\<close>

record args =
  clips :: "string list"
  output_arg :: string
  crossfade_arg :: real
  reencode_arg :: bool

definition chain_main :: "'x system \<Rightarrow> args \<Rightarrow> 'x session \<Rightarrow> path outcome \<times> 'x session" where
  "chain_main sys a w =
     (if length (clips a) < 2 then (Raised (SystemExit 1), w)
      else
        let clip_dirs = (if length (clips a) > 3 then take 3 (clips a) else clips a)
        in case check_ffmpeg sys w of
             (Raised e, w1) \<Rightarrow> (Raised e, w1)
           | (Returned _, w1) \<Rightarrow>
               chain_clips sys clip_dirs (output_arg a) (crossfade_arg a) (reencode_arg a) w1)"

section \<open>Vocabulary for statements about the decorator\<close>

text \<open>
  \<open>failed_attempt uniform func attempt w e w'\<close>: in world \<open>w\<close> the call of \<open>func\<close>
  made by attempt number \<open>attempt\<close> raises the rate-limit error \<open>e\<close>, and \<open>w'\<close> is the
  world that lines 46 to 49 leave after the decorator has counted the call. This says
  nothing on whether those lines raise.
\<close>

definition failed_attempt ::
  "(real \<Rightarrow> real \<Rightarrow> 'x \<Rightarrow> real \<times> 'x) \<Rightarrow> ('x world \<Rightarrow> ('a outcome \<times> 'x world) option) \<Rightarrow>
   nat \<Rightarrow> 'x world \<Rightarrow> exn \<Rightarrow> 'x world \<Rightarrow> bool" where
  "failed_attempt uniform func attempt w e w' \<longleftrightarrow>
     (\<exists>cls error_str t. e = Exception cls error_str \<and> rate_limited error_str \<and>
        func w = Some (Raised e, t) \<and>
        w' = snd (backoff uniform attempt (t\<lparr>invocations := Suc (invocations w)\<rparr>)))"

text \<open>An exception that the decorator answers with a retry.\<close>

definition transient :: "exn \<Rightarrow> bool" where
  "transient e = (case e of Exception cls error_str \<Rightarrow> rate_limited error_str | SystemExit c \<Rightarrow> False)"

section \<open>Test doubles\<close>

subsection \<open>For the retry decorator\<close>

text \<open>
  A generator whose every draw is the midpoint of the interval, an
  operation that is always rate limited, one that is rate limited as many times as \<open>ext\<close>
  says and then succeeds, one that fails for good, and an untouched world.
\<close>

definition stub_uniform :: "real \<Rightarrow> real \<Rightarrow> nat \<Rightarrow> real \<times> nat" where
  "stub_uniform a b x = (a + (b - a) / 2, x)"

definition always_429 :: "nat world \<Rightarrow> (string outcome \<times> nat world) option" where
  "always_429 w = Some (Raised (Exception ''ClientError'' ''429 RESOURCE_EXHAUSTED''), w)"

definition flaky :: "nat world \<Rightarrow> (string outcome \<times> nat world) option" where
  "flaky w =
     (if ext w = 0 then Some (Returned ''ok'', w)
      else Some (Raised (Exception ''ClientError'' ''429 Too Many Requests''), w\<lparr>ext := ext w - 1\<rparr>))"

definition bad_request :: "nat world \<Rightarrow> (string outcome \<times> nat world) option" where
  "bad_request w = Some (Raised (Exception ''ClientError'' ''400 INVALID_ARGUMENT''), w)"

definition fresh :: "nat \<Rightarrow> nat world" where
  "fresh x = \<lparr>invocations = 0, sleeps = [], files = Map.empty, ext = x\<rparr>"

subsection \<open>For the generation stages\<close>

text \<open>
  A remote service whose image call always answers \<open>reply\<close>, whose video call answers
  with an unfinished operation, and whose status call answers with the unfinished
  operation as many times as the outside state says and with \<open>final\<close> from then on.
  Both environment variables are set and the credentials load.
\<close>

definition image_ok :: content_response where
  "image_ok = \<lparr>candidates = [[\<lparr>inline_data = Some \<lparr>mime_type = ''image/png'', data = ''PNG''\<rparr>\<rparr>]]\<rparr>"

definition no_image :: content_response where
  "no_image = \<lparr>candidates = [[\<lparr>inline_data = None\<rparr>]]\<rparr>"

definition pending :: operation where
  "pending = \<lparr>op_done = False, response = None, result = None\<rparr>"

definition finished :: "video_file option list \<Rightarrow> operation" where
  "finished videos =
     \<lparr>op_done = True, response = Some \<lparr>generated_videos = videos\<rparr>,
      result = Some \<lparr>generated_videos = videos\<rparr>\<rparr>"

definition uri_only :: operation where
  "uri_only = finished [Some \<lparr>video_bytes = None, uri = Some ''gs://bucket/clip.mp4''\<rparr>]"

definition stub_services :: "content_response \<Rightarrow> operation \<Rightarrow> nat services" where
  "stub_services reply final =
     \<lparr>environ = [''VERTEX_AI_PROJECT_ID'' \<mapsto> ''demo'', ''VERTEX_AI_SERVICE_ACCOUNT_JSON'' \<mapsto> ''sa.json''],
      from_service_account_file = (\<lambda>p x. (Returned ''token'', x)),
      random_uniform = stub_uniform,
      generate_content = (\<lambda>c m contents aspect x. (Returned reply, x)),
      generate_videos = (\<lambda>c m prompt first cfg x. (Returned pending, x)),
      operations_get = (\<lambda>c operation x. if x = 0 then (Returned final, 0) else (Returned operation, x - 1)),
      b64decode = (\<lambda>s. Returned s)\<rparr>"

definition demo_client :: client where
  "demo_client = \<lparr>project = Some ''demo'', location = ''us-central1'', credentials = ''token''\<rparr>"

definition demo_config :: config where
  "demo_config =
     \<lparr>clip_id = ''t1'', start_prompt = ''A desk'', end_prompt = ''A phone'',
      transition_prompt = ''reach'', aspect_ratio = None, duration = Some 4, output_dir = None\<rparr>"

subsection \<open>For the chaining script\<close>

text \<open>
  A reader for decimal numerals (an optional sign, digits, an optional point and
  digits), which is the form \<^verbatim>\<open>ffprobe\<close> prints a duration in and on which Python's
  \<^verbatim>\<open>float\<close> gives the value read here; it rejects everything else, as \<^verbatim>\<open>float\<close>
  rejects \<^verbatim>\<open>N/A\<close> and the empty string. And the text of a non-negative float with
  one digit after the point, as an f-string prints \<^verbatim>\<open>1.0\<close> or \<^verbatim>\<open>1.5\<close>.
\<close>

definition digit_of :: "char \<Rightarrow> nat option" where
  "digit_of c = (if c \<in> set ''0123456789'' then Some (of_char c - 48) else None)"

fun read_digits :: "nat \<Rightarrow> string \<Rightarrow> nat option" where
  "read_digits acc [] = Some acc"
| "read_digits acc (c # cs) =
     (case digit_of c of None \<Rightarrow> None | Some d \<Rightarrow> read_digits (10 * acc + d) cs)"

definition unsigned_decimal :: "string \<Rightarrow> real option" where
  "unsigned_decimal s =
     (let whole = takeWhile (\<lambda>c. c \<noteq> CHR ''.'') s;
          frac = drop 1 (dropWhile (\<lambda>c. c \<noteq> CHR ''.'') s)
      in if whole = [] \<and> frac = [] then None
         else case (read_digits 0 whole, read_digits 0 frac) of
                (Some a, Some b) \<Rightarrow> Some (real a + real b / 10 ^ length frac)
              | _ \<Rightarrow> None)"

definition decimal :: "string \<Rightarrow> real option" where
  "decimal s =
     (case s of
        [] \<Rightarrow> None
      | c # cs \<Rightarrow>
          if c = CHR ''-'' then map_option uminus (unsigned_decimal cs)
          else if c = CHR ''+'' then unsigned_decimal cs
          else unsigned_decimal s)"

definition one_decimal :: "real \<Rightarrow> string" where
  "one_decimal r =
     str_of_nat (nat \<lfloor>r\<rfloor>) @ ''.'' @ str_of_nat (nat \<lfloor>10 * (r - of_int \<lfloor>r\<rfloor>)\<rfloor>)"

text \<open>
  An operating system in which every directory holds a \<^verbatim>\<open>clip.mp4\<close>, \<^verbatim>\<open>ffmpeg\<close>
  succeeds, and \<^verbatim>\<open>ffprobe\<close> answers for each path what \<open>probe\<close> says.
\<close>

definition stub_system :: "(path \<Rightarrow> completed) \<Rightarrow> unit system" where
  "stub_system probe =
     \<lparr>subprocess_run = (\<lambda>cmd x.
        (Returned (if take 1 cmd = [''ffprobe''] then probe (last cmd)
                   else \<lparr>returncode = 0, stdout = [], stderr = []\<rparr>), x)),
      path_exists = (\<lambda>p x. True),
      glob_mp4 = (\<lambda>d x. []),
      absolute = (\<lambda>p x. ''/work/'' @ p),
      st_size = (\<lambda>p x. Some 1024),
      named_temporary_file = (\<lambda>text x. (''/tmp/list.txt'', x)),
      unlink = (\<lambda>p x. x),
      mkdir = (\<lambda>p x. (Returned (), x)),
      float_of_str = decimal,
      str_of_float = one_decimal\<rparr>"

definition four_seconds :: "path \<Rightarrow> completed" where
  "four_seconds p = \<lparr>returncode = 0, stdout = ''4.000000'' @ [CHR 0x0A], stderr = []\<rparr>"

definition not_available :: "path \<Rightarrow> completed" where
  "not_available p = \<lparr>returncode = 0, stdout = ''N/A'' @ [CHR 0x0A], stderr = []\<rparr>"

definition probe_fails :: "path \<Rightarrow> completed" where
  "probe_fails p = \<lparr>returncode = 1, stdout = [], stderr = ''Invalid data found when processing input''\<rparr>"

definition start :: "unit session" where
  "start = \<lparr>commands = [], outside = ()\<rparr>"

section \<open>Properties of the retry decorator\<close>

lemma int_to_float_in_range:
  assumes "attempt \<le> 1021"
  shows "int_to_float (BASE_DELAY * 2 ^ attempt) = Returned (5 * 2 ^ attempt)"
proof -
  have "(2::int) ^ attempt \<le> 2 ^ 1021"
    using assms by (intro power_increasing) simp_all
  then have "(5::int) * 2 ^ attempt \<le> 5 * 2 ^ 1021"
    by (rule mult_left_mono) simp
  moreover have "(5::int) * 2 ^ 1021 < 2 ^ 1024 - 2 ^ 970" by simp
  ultimately have "(5::int) * 2 ^ attempt < 2 ^ 1024 - 2 ^ 970"
    by (rule le_less_trans)
  moreover have "\<bar>5 * (2::int) ^ attempt\<bar> = 5 * 2 ^ attempt"
    by (simp add: abs_mult)
  ultimately have "\<bar>5 * (2::int) ^ attempt\<bar> < 2 ^ 1024 - 2 ^ 970" by (simp only:)
  then show ?thesis by (simp add: int_to_float_def float_limit_def BASE_DELAY_def)
qed

lemma int_to_float_overflow:
  assumes "1022 \<le> attempt"
  shows "int_to_float (BASE_DELAY * 2 ^ attempt) =
         Raised (Exception ''OverflowError'' ''int too large to convert to float'')"
proof -
  have "(2::int) ^ 1022 \<le> 2 ^ attempt"
    using assms by (intro power_increasing) simp_all
  then have "(5::int) * 2 ^ 1022 \<le> 5 * 2 ^ attempt"
    by (rule mult_left_mono) simp
  moreover have "(2::int) ^ 1024 - 2 ^ 970 \<le> 5 * 2 ^ 1022" by simp
  ultimately have "(2::int) ^ 1024 - 2 ^ 970 \<le> 5 * 2 ^ attempt"
    by (rule order_trans [rotated])
  moreover have "\<bar>5 * (2::int) ^ attempt\<bar> = 5 * 2 ^ attempt"
    by (simp add: abs_mult)
  ultimately have "\<not> \<bar>5 * (2::int) ^ attempt\<bar> < 2 ^ 1024 - 2 ^ 970"
    by (simp only: not_less)
  then show ?thesis by (simp add: int_to_float_def float_limit_def BASE_DELAY_def)
qed

lemma backoff_delay_in_range:
  "attempt \<le> 1021 \<Longrightarrow> backoff_delay attempt u = Returned (min (5 * 2 ^ attempt + u) 120)"
  by (simp add: backoff_delay_def int_to_float_in_range MAX_DELAY_def)

lemma backoff_delay_overflow:
  "1022 \<le> attempt \<Longrightarrow>
   backoff_delay attempt u = Raised (Exception ''OverflowError'' ''int too large to convert to float'')"
  by (simp add: backoff_delay_def int_to_float_overflow)

lemma backoff_in_range:
  "attempt \<le> 1021 \<Longrightarrow>
   backoff uniform attempt w =
     (Returned (),
      w\<lparr>sleeps := sleeps w @ [min (5 * 2 ^ attempt + fst (uniform 0 2 (ext w))) 120],
        ext := snd (uniform 0 2 (ext w))\<rparr>)"
  by (simp add: backoff_def backoff_delay_in_range split: prod.split)

lemma backoff_overflow:
  "1022 \<le> attempt \<Longrightarrow>
   backoff uniform attempt w =
     (Raised (Exception ''OverflowError'' ''int too large to convert to float''),
      w\<lparr>ext := snd (uniform 0 2 (ext w))\<rparr>)"
  by (simp add: backoff_def backoff_delay_overflow split: prod.split)

lemma invocations_backoff [simp]: "invocations (snd (backoff uniform attempt w)) = invocations w"
  by (simp add: backoff_def split: prod.split outcome.split)

lemma retry_loop_failed_step:
  assumes "failed_attempt uniform func attempt w e w'" and "attempt \<le> 1021"
  shows "retry_loop uniform func (attempt # rest) lst w = retry_loop uniform func rest (Some e) w'"
  using assms by (auto simp: failed_attempt_def backoff_in_range)

lemma failed_attempt_invocations:
  "failed_attempt uniform func attempt w e w' \<Longrightarrow> invocations w' = Suc (invocations w)"
  by (auto simp: failed_attempt_def)

lemma retry_loop_failures:
  assumes "ws 0 = w"
    and "\<forall>i<k. failed_attempt uniform func (a + i) (ws i) (es i) (ws (Suc i))"
    and "a + k \<le> 1022"
  shows "retry_loop uniform func ([a ..< a + k] @ rest) lst w =
         retry_loop uniform func rest (if k = 0 then lst else Some (es (k - 1))) (ws k)"
  using assms
proof (induction k arbitrary: a w ws es lst)
  case 0
  then show ?case by simp
next
  case (Suc k)
  have first: "failed_attempt uniform func a w (es 0) (ws 1)"
    using Suc.prems by force
  have a: "a \<le> 1021" using Suc.prems(3) by simp
  have rest': "\<forall>i<k. failed_attempt uniform func (Suc a + i) ((ws \<circ> Suc) i) ((es \<circ> Suc) i) ((ws \<circ> Suc) (Suc i))"
    using Suc.prems(2) by auto
  have bound: "Suc a + k \<le> 1022" using Suc.prems(3) by simp
  have split: "[a ..< a + Suc k] = a # [Suc a ..< Suc a + k]"
    by (simp add: upt_conv_Cons)
  have "retry_loop uniform func ([a ..< a + Suc k] @ rest) lst w =
        retry_loop uniform func ([Suc a ..< Suc a + k] @ rest) (Some (es 0)) (ws 1)"
    unfolding split using retry_loop_failed_step [OF first a] by simp
  also have "\<dots> = retry_loop uniform func rest (if k = 0 then Some (es 0) else Some ((es \<circ> Suc) (k - 1))) ((ws \<circ> Suc) k)"
    using Suc.IH [of "ws \<circ> Suc" "ws 1" "Suc a" "es \<circ> Suc" "Some (es 0)"] rest' bound by simp
  finally show ?case by (cases k) simp_all
qed

lemma failures_invocations:
  assumes "ws 0 = w"
    and "\<forall>i<k. failed_attempt uniform func (a + i) (ws i) (es i) (ws (Suc i))"
  shows "i \<le> k \<Longrightarrow> invocations (ws i) = invocations w + i"
proof (induction i)
  case 0
  then show ?case using assms(1) by simp
next
  case (Suc i)
  then have "failed_attempt uniform func (a + i) (ws i) (es i) (ws (Suc i))"
    using assms(2) by simp
  then have "invocations (ws (Suc i)) = Suc (invocations (ws i))"
    by (rule failed_attempt_invocations)
  then show ?case using Suc by simp
qed

lemma upt_split_at:
  assumes "k < n"
  shows "[0 ..< n] = [0 ..< 0 + k] @ (k # [Suc k ..< n])"
proof -
  obtain r where n: "n = k + Suc r"
    using assms less_imp_Suc_add [of k n] by auto
  have "[0 ..< k + Suc r] = [0 ..< k] @ [k ..< k + Suc r]"
    by (rule upt_add_eq_append) simp
  moreover have "[k ..< k + Suc r] = k # [Suc k ..< k + Suc r]"
    by (rule upt_conv_Cons) simp
  ultimately show ?thesis unfolding n by simp
qed

text \<open>The decorator after \<open>k\<close> rate-limited attempts, about to make attempt \<open>k\<close>.\<close>

lemma retry_on_429_after_failures:
  assumes "k < nat max_retries" and "k \<le> 1022"
    and "ws 0 = w"
    and "\<forall>i<k. failed_attempt uniform func i (ws i) (es i) (ws (Suc i))"
  shows "retry_on_429 max_retries uniform func w =
         retry_loop uniform func (k # [Suc k ..< nat max_retries])
           (if k = 0 then None else Some (es (k - 1))) (ws k)"
proof -
  have fails: "\<forall>i < k. failed_attempt uniform func (0 + i) (ws i) (es i) (ws (Suc i))"
    using assms(4) by simp
  have bound: "0 + k \<le> 1022" using assms(2) by simp
  show ?thesis
    unfolding retry_on_429_def upt_split_at [OF assms(1)]
    using retry_loop_failures [OF assms(3) fails bound] by simp
qed

lemma retry_on_429_overflow:
  assumes "1022 < nat max_retries"
    and "ws 0 = w"
    and "\<forall>i<1022. failed_attempt uniform func i (ws i) (es i) (ws (Suc i))"
    and "func (ws 1022) = Some (Raised (Exception cls error_str), t)"
    and "rate_limited error_str"
  shows "retry_on_429 max_retries uniform func w =
         Some (Raised (Exception ''OverflowError'' ''int too large to convert to float''),
               t\<lparr>invocations := invocations w + 1023, ext := snd (uniform 0 2 (ext t))\<rparr>)"
proof -
  have fails: "\<forall>i < 1022. failed_attempt uniform func (0 + i) (ws i) (es i) (ws (Suc i))"
    using assms(3) by simp
  have inv: "invocations (ws 1022) = invocations w + 1022"
    using failures_invocations [OF assms(2) fails, of 1022] by simp
  have "retry_on_429 max_retries uniform func w =
         retry_loop uniform func (1022 # [Suc 1022 ..< nat max_retries])
           (if (1022::nat) = 0 then None else Some (es (1022 - 1))) (ws 1022)"
    using assms(1) _ assms(2,3) by (rule retry_on_429_after_failures) simp
  also have "\<dots> = Some (Raised (Exception ''OverflowError'' ''int too large to convert to float''),
               t\<lparr>invocations := invocations w + 1023, ext := snd (uniform 0 2 (ext t))\<rparr>)"
    using assms(4,5) inv by (simp add: backoff_overflow)
  finally show ?thesis .
qed

lemma rate_limited_429: "rate_limited ''429 Too Many Requests''"
  by (simp add: rate_limited_def)

lemma rate_limited_exhausted: "rate_limited ''429 RESOURCE_EXHAUSTED''"
  by (simp add: rate_limited_def)

lemma not_rate_limited_400: "\<not> rate_limited ''400 INVALID_ARGUMENT''"
  by (simp add: rate_limited_def)

lemma stub_uniform_0_2: "stub_uniform 0 2 x = (1, x)"
  by (simp add: stub_uniform_def)

lemma always_429_overflow_run:
  "retry_on_429 1023 stub_uniform always_429 (fresh 0) =
     Some (Raised (Exception ''OverflowError'' ''int too large to convert to float''),
           \<lparr>invocations = 1023, sleeps = map (\<lambda>j. min (5 * 2 ^ j + 1) 120) [0 ..< 1022],
            files = Map.empty, ext = 0\<rparr>)"
proof -
  define ws where "ws = (\<lambda>i::nat.
     \<lparr>invocations = i, sleeps = map (\<lambda>j. min (5 * 2 ^ j + 1) (120::real)) [0 ..< i],
      files = (Map.empty :: path \<rightharpoonup> bytes), ext = 0::nat\<rparr>)"
  define es where "es = (\<lambda>i::nat. Exception ''ClientError'' ''429 RESOURCE_EXHAUSTED'')"
  have h1: "1022 < nat 1023" by simp
  have h2: "ws 0 = fresh 0" by (simp add: ws_def fresh_def)
  have h3: "\<forall>i<1022. failed_attempt stub_uniform always_429 i (ws i) (es i) (ws (Suc i))"
  proof (intro allI impI)
    fix i :: nat
    assume "i < 1022"
    then have i: "i \<le> 1021" by simp
    show "failed_attempt stub_uniform always_429 i (ws i) (es i) (ws (Suc i))"
      unfolding failed_attempt_def
      by (simp add: backoff_in_range [OF i] ws_def es_def always_429_def stub_uniform_0_2
          rate_limited_exhausted)
  qed
  have h4: "always_429 (ws 1022) =
      Some (Raised (Exception ''ClientError'' ''429 RESOURCE_EXHAUSTED''), ws 1022)"
    by (simp add: always_429_def)
  show ?thesis
    using retry_on_429_overflow [where func = always_429 and ws = ws and es = es
        and uniform = stub_uniform, OF h1 h2 h3 h4 rate_limited_exhausted]
    by (simp add: ws_def fresh_def stub_uniform_0_2)
qed

lemma flaky_overflow_run:
  "retry_on_429 1024 stub_uniform flaky (fresh 1023) =
     Some (Raised (Exception ''OverflowError'' ''int too large to convert to float''),
           \<lparr>invocations = 1023, sleeps = map (\<lambda>j. min (5 * 2 ^ j + 1) 120) [0 ..< 1022],
            files = Map.empty, ext = 0\<rparr>)"
proof -
  define ws where "ws = (\<lambda>i::nat.
     \<lparr>invocations = i, sleeps = map (\<lambda>j. min (5 * 2 ^ j + 1) (120::real)) [0 ..< i],
      files = (Map.empty :: path \<rightharpoonup> bytes), ext = 1023 - i\<rparr>)"
  define es where "es = (\<lambda>i::nat. Exception ''ClientError'' ''429 Too Many Requests'')"
  have h1: "1022 < nat 1024" by simp
  have h2: "ws 0 = fresh 1023" by (simp add: ws_def fresh_def)
  have h3: "\<forall>i<1022. failed_attempt stub_uniform flaky i (ws i) (es i) (ws (Suc i))"
  proof (intro allI impI)
    fix i :: nat
    assume less: "i < 1022"
    then have i: "i \<le> 1021" by simp
    show "failed_attempt stub_uniform flaky i (ws i) (es i) (ws (Suc i))"
      unfolding failed_attempt_def using less
      by (simp add: backoff_in_range [OF i] ws_def es_def flaky_def stub_uniform_0_2
          rate_limited_429)
  qed
  have h4: "flaky (ws 1022) =
      Some (Raised (Exception ''ClientError'' ''429 Too Many Requests''), (ws 1022)\<lparr>ext := 0\<rparr>)"
    by (simp add: flaky_def ws_def)
  show ?thesis
    using retry_on_429_overflow [where func = flaky and ws = ws and es = es
        and uniform = stub_uniform, OF h1 h2 h3 h4 rate_limited_429]
    by (simp add: ws_def fresh_def stub_uniform_0_2)
qed

text \<open>
  Claim C4, as stated: an operation that is rate limited on every attempt is invoked
  exactly \<open>maxAttempts\<close> times, and then a RetryExhausted error wrapping the last
  observed error is raised. The decorator has no such error: line 53 raises
  \<^verbatim>\<open>last_exception\<close> itself. Here the operation raises a \<^verbatim>\<open>ClientError\<close> on each of
  two attempts, and what the decorator raises is that very exception, class and
  message. And with a cap of 1023 the operation is invoked 1023 times, but what leaves
  the decorator is the \<^verbatim>\<open>OverflowError\<close> of line 47 at attempt index 1022.
\<close>

theorem retry_exhausted_no_wrapper_counterexample:
  "always_429 (fresh 0) = Some (Raised (Exception ''ClientError'' ''429 RESOURCE_EXHAUSTED''), fresh 0) \<and>
   map_option fst (retry_on_429 2 stub_uniform always_429 (fresh 0)) =
     Some (Raised (Exception ''ClientError'' ''429 RESOURCE_EXHAUSTED'')) \<and>
   map_option fst (retry_on_429 1023 stub_uniform always_429 (fresh 0)) =
     Some (Raised (Exception ''OverflowError'' ''int too large to convert to float'')) \<and>
   map_option (\<lambda>r. invocations (snd r)) (retry_on_429 1023 stub_uniform always_429 (fresh 0)) =
     Some 1023"
proof -
  have "map_option fst (retry_on_429 2 stub_uniform always_429 (fresh 0)) =
     Some (Raised (Exception ''ClientError'' ''429 RESOURCE_EXHAUSTED''))"
    by (simp add: retry_on_429_def always_429_def numeral_2_eq_2 upt_rec rate_limited_exhausted
        raise_last_def backoff_in_range)
  then show ?thesis
    by (simp add: always_429_overflow_run) (simp add: always_429_def)
qed

text \<open>
  Claim C4, amended: with an attempt cap between 1 and 1022, an operation that is rate
  limited on each of the \<open>max_retries\<close> attempts is invoked exactly \<open>max_retries\<close>
  times, and then the decorator raises the error of the last attempt, unchanged.
  \<open>ws i\<close> is the world before attempt \<open>i\<close> and \<open>es i\<close> the error that attempt raises.
\<close>

theorem retry_exhausted_reraises_last:
  assumes "0 < max_retries" and "max_retries \<le> 1022"
    and "ws 0 = w"
    and "\<forall>i < nat max_retries. failed_attempt uniform func i (ws i) (es i) (ws (Suc i))"
  shows "retry_on_429 max_retries uniform func w =
           Some (Raised (es (nat max_retries - 1)), ws (nat max_retries)) \<and>
         invocations (ws (nat max_retries)) = invocations w + nat max_retries"
proof -
  let ?n = "nat max_retries"
  have pos: "?n \<noteq> 0" using assms(1) by simp
  have fails: "\<forall>i < ?n. failed_attempt uniform func (0 + i) (ws i) (es i) (ws (Suc i))"
    using assms(4) by simp
  have bound: "0 + ?n \<le> 1022" using assms(2) by simp
  have "retry_loop uniform func ([0 ..< 0 + ?n] @ []) None w =
        retry_loop uniform func [] (if ?n = 0 then None else Some (es (?n - 1))) (ws ?n)"
    using assms(3) fails bound by (rule retry_loop_failures)
  then have "retry_on_429 max_retries uniform func w = Some (Raised (es (?n - 1)), ws ?n)"
    using pos by (simp add: retry_on_429_def raise_last_def)
  moreover have "invocations (ws ?n) = invocations w + ?n"
    using failures_invocations [OF assms(3) fails] by simp
  ultimately show ?thesis by simp
qed

theorem retry_exhausted_reraises_last_witness:
  "retry_on_429 2 stub_uniform always_429 (fresh 0) =
     Some (Raised (Exception ''ClientError'' ''429 RESOURCE_EXHAUSTED''),
           \<lparr>invocations = 2, sleeps = [6, 11], files = Map.empty, ext = 0\<rparr>)"
proof -
  define ws where "ws = (\<lambda>i::nat. if i = 0 then fresh 0
     else if i = 1 then \<lparr>invocations = 1, sleeps = [6], files = Map.empty, ext = 0\<rparr>
     else \<lparr>invocations = 2, sleeps = [6, 11], files = Map.empty, ext = 0::nat\<rparr>)"
  define es where "es = (\<lambda>i::nat. Exception ''ClientError'' ''429 RESOURCE_EXHAUSTED'')"
  have h0: "(0::int) < 2" by simp
  have h1: "(2::int) \<le> 1022" by simp
  have h2: "ws 0 = fresh 0" by (simp add: ws_def)
  have h3: "\<forall>i < nat 2. failed_attempt stub_uniform always_429 i (ws i) (es i) (ws (Suc i))"
    by (simp add: less_Suc_eq numeral_2_eq_2 failed_attempt_def ws_def es_def always_429_def fresh_def
        rate_limited_exhausted backoff_in_range stub_uniform_0_2)
  show ?thesis
    using retry_exhausted_reraises_last [where func = always_429 and ws = ws and es = es and uniform = stub_uniform, OF h0 h1 h2 h3] by (simp add: ws_def es_def)
qed

text \<open>
  Claim C5, as stated, is for every \<open>k\<close> below the attempt cap. An operation that is
  rate limited 1023 times and would then succeed never gets its 1024th call: after the
  1023rd failure, at attempt index 1022, line 47 raises \<^verbatim>\<open>OverflowError\<close>.
\<close>

theorem retry_overflow_before_success_counterexample:
  "flaky (fresh 0) = Some (Returned ''ok'', fresh 0) \<and>
   map_option fst (retry_on_429 1024 stub_uniform flaky (fresh 1023)) =
     Some (Raised (Exception ''OverflowError'' ''int too large to convert to float'')) \<and>
   map_option (\<lambda>r. invocations (snd r)) (retry_on_429 1024 stub_uniform flaky (fresh 1023)) =
     Some 1023"
  by (simp add: flaky_overflow_run) (simp add: flaky_def fresh_def)

text \<open>
  Claim C5, amended: an operation that is rate limited on its first \<open>k\<close> calls and then
  returns \<open>v\<close>, with \<open>k\<close> below the attempt cap and at most 1022, makes the decorator
  return \<open>v\<close> after exactly \<open>k + 1\<close> invocations; the world it leaves is the one the
  successful call left, so nothing is attempted and nothing slept after the success.
\<close>

theorem retry_succeeds_after_k_failures:
  assumes "int k < max_retries" and "k \<le> 1022"
    and "ws 0 = w"
    and "\<forall>i < k. failed_attempt uniform func i (ws i) (es i) (ws (Suc i))"
    and "func (ws k) = Some (Returned v, t)"
  shows "retry_on_429 max_retries uniform func w =
           Some (Returned v, t\<lparr>invocations := invocations w + (k + 1)\<rparr>)"
proof -
  have fails: "\<forall>i < k. failed_attempt uniform func (0 + i) (ws i) (es i) (ws (Suc i))"
    using assms(4) by simp
  have less: "k < nat max_retries" using assms(1) by linarith
  have "retry_on_429 max_retries uniform func w =
        retry_loop uniform func (k # [Suc k ..< nat max_retries])
          (if k = 0 then None else Some (es (k - 1))) (ws k)"
    using less assms(2,3,4) by (rule retry_on_429_after_failures)
  also have "\<dots> = Some (Returned v, t\<lparr>invocations := Suc (invocations (ws k))\<rparr>)"
    using assms(5) by simp
  finally show ?thesis
    using failures_invocations [OF assms(3) fails, of k] by simp
qed

theorem retry_succeeds_after_k_failures_witness:
  "retry_on_429 3 stub_uniform flaky (fresh 2) =
     Some (Returned ''ok'', \<lparr>invocations = 3, sleeps = [6, 11], files = Map.empty, ext = 0\<rparr>)"
proof -
  define ws where "ws = (\<lambda>i::nat. if i = 0 then fresh 2
     else if i = 1 then \<lparr>invocations = 1, sleeps = [6], files = Map.empty, ext = 1\<rparr>
     else \<lparr>invocations = 2, sleeps = [6, 11], files = Map.empty, ext = 0::nat\<rparr>)"
  define es where "es = (\<lambda>i::nat. Exception ''ClientError'' ''429 Too Many Requests'')"
  have h0: "int 2 < 3" by simp
  have h1: "(2::nat) \<le> 1022" by simp
  have h2: "ws 0 = fresh 2" by (simp add: ws_def)
  have h3: "\<forall>i<2. failed_attempt stub_uniform flaky i (ws i) (es i) (ws (Suc i))"
    by (simp add: less_Suc_eq numeral_2_eq_2 failed_attempt_def ws_def es_def flaky_def fresh_def
        rate_limited_429 backoff_in_range stub_uniform_0_2)
  have h4: "flaky (ws 2) = Some (Returned ''ok'', ws 2)"
    by (simp add: ws_def flaky_def)
  show ?thesis
    using retry_succeeds_after_k_failures [where func = flaky and ws = ws and es = es and uniform = stub_uniform, OF h0 h1 h2 h3 h4] by (simp add: ws_def fresh_def)
qed

text \<open>
  Claim C6: an operation whose first call raises an error that is not a rate-limit
  signal is invoked exactly once and the same error is raised; the world is the one
  that call left, so the decorator has not slept. (A first call takes place when the
  attempt cap is positive.)
\<close>

theorem retry_propagates_non_transient:
  assumes "0 < max_retries"
    and "func w = Some (Raised e, t)"
    and "\<not> transient e"
  shows "retry_on_429 max_retries uniform func w =
           Some (Raised e, t\<lparr>invocations := invocations w + 1\<rparr>)"
proof -
  obtain r where "nat max_retries = Suc r"
    using assms(1) by (cases "nat max_retries") auto
  then have "[0 ..< nat max_retries] = 0 # [Suc 0 ..< Suc r]"
    using upt_conv_Cons [of 0 "Suc r"] by simp
  then show ?thesis
    using assms(2,3) by (cases e) (simp_all add: retry_on_429_def transient_def)
qed

theorem retry_propagates_non_transient_witness:
  "retry_on_429 8 stub_uniform bad_request (fresh 0) =
     Some (Raised (Exception ''ClientError'' ''400 INVALID_ARGUMENT''),
           \<lparr>invocations = 1, sleeps = [], files = Map.empty, ext = 0\<rparr>)"
proof -
  have h1: "(0::int) < 8" by simp
  have h2: "bad_request (fresh 0) = Some (Raised (Exception ''ClientError'' ''400 INVALID_ARGUMENT''), fresh 0)"
    by (simp add: bad_request_def)
  have h3: "\<not> transient (Exception ''ClientError'' ''400 INVALID_ARGUMENT'')"
    by (simp add: transient_def not_rate_limited_400)
  show ?thesis
    using retry_propagates_non_transient [where func = bad_request and w = "fresh 0" and uniform = stub_uniform, OF h1 h2 h3] by (simp add: fresh_def)
qed

text \<open>
  Claim C7, as stated, is for every attempt index. At attempt index 1022 line 47 has
  no value: the integer \<open>5 * 2 ^ 1022\<close> does not convert to a float, and the decorator
  that has slept after each of 1022 failures raises \<^verbatim>\<open>OverflowError\<close> instead of
  sleeping after the next.
\<close>

theorem backoff_overflow_at_1022_counterexample:
  "backoff_delay 1022 1 =
     Raised (Exception ''OverflowError'' ''int too large to convert to float'') \<and>
   map_option fst (retry_on_429 1023 stub_uniform always_429 (fresh 0)) =
     Some (Raised (Exception ''OverflowError'' ''int too large to convert to float'')) \<and>
   map_option (\<lambda>r. length (sleeps (snd r))) (retry_on_429 1023 stub_uniform always_429 (fresh 0)) =
     Some 1022"
  by (simp add: always_429_overflow_run backoff_delay_overflow)

text \<open>
  Claim C7, amended: when attempt number \<open>k\<close> of the decorator, with \<open>k\<close> at most 1021,
  ends in a rate-limit error, the decorator sleeps for \<open>min (5 * 2 ^ k + u) 120\<close>, with
  \<open>u\<close> the value it draws from \<open>uniform 0 2\<close>, and goes on with the attempts after \<open>k\<close>;
  this is the value of line 47, it is at most 120 for every \<open>u\<close>, and for a fixed \<open>u\<close>
  the delay of a later attempt index up to 1021 is no smaller.
\<close>

theorem retry_sleeps_backoff_delay:
  assumes "k < nat max_retries" and "k \<le> 1021"
    and "ws 0 = w"
    and "\<forall>i < k. failed_attempt uniform func i (ws i) (es i) (ws (Suc i))"
    and "func (ws k) = Some (Raised (Exception cls error_str), t)"
    and "rate_limited error_str"
    and "uniform 0 2 (ext t) = (u, x)"
  shows "retry_on_429 max_retries uniform func w =
           retry_loop uniform func [Suc k ..< nat max_retries] (Some (Exception cls error_str))
             (t\<lparr>invocations := invocations w + (k + 1),
                sleeps := sleeps t @ [min (5 * 2 ^ k + u) 120], ext := x\<rparr>) \<and>
         backoff_delay k u = Returned (min (5 * 2 ^ k + u) 120) \<and>
         min (5 * 2 ^ k + u) 120 \<le> 120 \<and>
         (\<forall>j. k + j \<le> 1021 \<longrightarrow>
            backoff_delay (k + j) u = Returned (min (5 * 2 ^ (k + j) + u) 120) \<and>
            min (5 * 2 ^ k + u) 120 \<le> min (5 * 2 ^ (k + j) + u) 120)"
proof -
  have fails: "\<forall>i < k. failed_attempt uniform func (0 + i) (ws i) (es i) (ws (Suc i))"
    using assms(4) by simp
  have k: "k \<le> 1022" using assms(2) by simp
  have "retry_on_429 max_retries uniform func w =
        retry_loop uniform func (k # [Suc k ..< nat max_retries])
          (if k = 0 then None else Some (es (k - 1))) (ws k)"
    using assms(1) k assms(3,4) by (rule retry_on_429_after_failures)
  also have "\<dots> = retry_loop uniform func [Suc k ..< nat max_retries] (Some (Exception cls error_str))
             (t\<lparr>invocations := Suc (invocations (ws k)),
                sleeps := sleeps t @ [min (5 * 2 ^ k + u) 120], ext := x\<rparr>)"
    using assms(5,6,7) by (simp add: backoff_in_range [OF assms(2)])
  finally have run: "retry_on_429 max_retries uniform func w =
           retry_loop uniform func [Suc k ..< nat max_retries] (Some (Exception cls error_str))
             (t\<lparr>invocations := invocations w + (k + 1),
                sleeps := sleeps t @ [min (5 * 2 ^ k + u) 120], ext := x\<rparr>)"
    using failures_invocations [OF assms(3) fails, of k] by simp
  have mono: "min (5 * 2 ^ k + u) 120 \<le> min (5 * 2 ^ (k + j) + u) (120::real)" for j
    by (simp add: power_add min_le_iff_disj)
  show ?thesis
    using run mono by (simp add: backoff_delay_in_range assms(2))
qed

theorem retry_sleeps_backoff_delay_witness:
  "retry_on_429 3 stub_uniform flaky (fresh 2) =
     retry_loop stub_uniform flaky [2] (Some (Exception ''ClientError'' ''429 Too Many Requests''))
       \<lparr>invocations = 2, sleeps = [6, 11], files = Map.empty, ext = 0\<rparr> \<and>
   backoff_delay 1 1 = Returned 11 \<and>
   backoff_delay 3 1 = Returned 41 \<and>
   (11::real) \<le> 41"
proof -
  define ws where "ws = (\<lambda>i::nat. if i = 0 then fresh 2
     else \<lparr>invocations = 1, sleeps = [6], files = Map.empty, ext = 1::nat\<rparr>)"
  define es where "es = (\<lambda>i::nat. Exception ''ClientError'' ''429 Too Many Requests'')"
  have h0: "1 < nat 3" by simp
  have h1: "(1::nat) \<le> 1021" by simp
  have h2: "ws 0 = fresh 2" by (simp add: ws_def)
  have h3: "\<forall>i<1. failed_attempt stub_uniform flaky i (ws i) (es i) (ws (Suc i))"
    by (simp add: failed_attempt_def ws_def es_def flaky_def fresh_def
        rate_limited_429 backoff_in_range stub_uniform_0_2)
  have h4: "flaky (ws 1) =
      Some (Raised (Exception ''ClientError'' ''429 Too Many Requests''), (ws 1)\<lparr>ext := 0\<rparr>)"
    by (simp add: ws_def flaky_def)
  have h5: "stub_uniform 0 2 (ext ((ws 1)\<lparr>ext := 0\<rparr>)) = (1, 0)"
    by (simp add: stub_uniform_0_2)
  note th = retry_sleeps_backoff_delay [where func = flaky and ws = ws and es = es and uniform = stub_uniform,
      OF h0 h1 h2 h3 h4 rate_limited_429 h5]
  have run: "retry_on_429 3 stub_uniform flaky (fresh 2) =
      retry_loop stub_uniform flaky [Suc 1 ..< nat 3]
        (Some (Exception ''ClientError'' ''429 Too Many Requests''))
        (((ws 1)\<lparr>ext := 0\<rparr>)\<lparr>invocations := invocations (fresh 2) + (1 + 1),
           sleeps := sleeps ((ws 1)\<lparr>ext := 0\<rparr>) @ [min (5 * 2 ^ 1 + 1) 120], ext := 0\<rparr>)"
    using th by (rule conjunct1)
  have upt: "[Suc 1 ..< nat 3] = [2]"
    by (simp add: upt_rec)
  have left: "((ws 1)\<lparr>ext := 0\<rparr>)\<lparr>invocations := invocations (fresh 2) + (1 + 1),
           sleeps := sleeps ((ws 1)\<lparr>ext := 0\<rparr>) @ [min (5 * 2 ^ 1 + 1) 120], ext := 0\<rparr> =
        \<lparr>invocations = 2, sleeps = [6, 11], files = Map.empty, ext = 0\<rparr>"
    by (simp add: ws_def fresh_def)
  have c1: "retry_on_429 3 stub_uniform flaky (fresh 2) =
     retry_loop stub_uniform flaky [2] (Some (Exception ''ClientError'' ''429 Too Many Requests''))
       \<lparr>invocations = 2, sleeps = [6, 11], files = Map.empty, ext = 0\<rparr>"
    using run unfolding upt left .
  have c2: "backoff_delay 1 1 = Returned 11"
    using th [THEN conjunct2, THEN conjunct1] by simp
  from th have "1 + 2 \<le> (1021::nat) \<longrightarrow>
      backoff_delay (1 + 2) 1 = Returned (min (5 * 2 ^ (1 + 2) + 1) 120) \<and>
      min (5 * 2 ^ 1 + 1) 120 \<le> min (5 * 2 ^ (1 + 2) + 1) (120::real)"
    by blast
  moreover have "(1::nat) + 2 = 3" by simp
  ultimately have c3: "backoff_delay 3 1 = Returned 41"
    by (simp del: One_nat_def add_2_eq_Suc' add_2_eq_Suc)
  show ?thesis
    by (intro conjI) (rule c1, rule c2, rule c3, simp)
qed

section \<open>Properties of the polling loop\<close>

lemma poll_done:
  "op_done operation \<Longrightarrow> poll_operation sys c operation w = Some (Returned operation, w)"
  by (subst poll_operation.simps) simp

lemma poll_step:
  "\<not> op_done operation \<Longrightarrow> operations_get sys c operation (ext w) = (Returned operation', x) \<Longrightarrow>
   poll_operation sys c operation w =
   poll_operation sys c operation' (w\<lparr>sleeps := sleeps w @ [15], ext := x\<rparr>)"
  by (subst poll_operation.simps) (simp add: call_def)

lemma poll_reaches_done:
  assumes "op_done (h n)"
    and "\<forall>i<n. \<not> op_done (h i) \<and> operations_get sys c (h i) (x i) = (Returned (h (Suc i)), x (Suc i))"
    and "ext w = x 0"
  shows "poll_operation sys c (h 0) w =
         Some (Returned (h n), w\<lparr>sleeps := sleeps w @ replicate n 15, ext := x n\<rparr>)"
  using assms
proof (induction n arbitrary: h x w)
  case 0
  then show ?case by (simp add: poll_done)
next
  case (Suc n)
  have step: "\<not> op_done (h 0)" "operations_get sys c (h 0) (ext w) = (Returned (h 1), x 1)"
    using Suc.prems by auto
  let ?w = "w\<lparr>sleeps := sleeps w @ [15], ext := x 1\<rparr>"
  have "poll_operation sys c ((h \<circ> Suc) 0) ?w =
        Some (Returned ((h \<circ> Suc) n), ?w\<lparr>sleeps := sleeps ?w @ replicate n 15, ext := (x \<circ> Suc) n\<rparr>)"
    by (rule Suc.IH) (use Suc.prems in auto)
  then show ?case
    using poll_step [OF step] by (simp add: replicate_app_Cons_same)
qed

lemma poll_never_done:
  assumes "poll_operation sys c operation w = Some r"
  shows "\<not> (\<exists>h x. h 0 = operation \<and> x 0 = ext w \<and>
            (\<forall>i. \<not> op_done (h i) \<and>
               operations_get sys c (h i) (x i) = (Returned (h (Suc i)), x (Suc i))))"
proof (rule poll_operation.raw_induct
    [where P = "\<lambda>sys c operation w r. \<not> (\<exists>h x. h 0 = operation \<and> x 0 = ext w \<and>
            (\<forall>i. \<not> op_done (h i) \<and>
               operations_get sys c (h i) (x i) = (Returned (h (Suc i)), x (Suc i))))",
     OF _ assms])
  fix poll :: "'a services \<Rightarrow> client \<Rightarrow> operation \<Rightarrow> 'a world \<Rightarrow> (operation outcome \<times> 'a world) option"
    and sys c operation w r
  assume IH: "\<And>sys c operation w r. poll sys c operation w = Some r \<Longrightarrow>
     \<not> (\<exists>h x. h 0 = operation \<and> x 0 = ext w \<and>
            (\<forall>i. \<not> op_done (h i) \<and>
               operations_get sys c (h i) (x i) = (Returned (h (Suc i)), x (Suc i))))"
    and body: "(if op_done operation then Some (Returned operation, w)
      else case call (operations_get sys c operation) (w\<lparr>sleeps := sleeps w @ [15]\<rparr>) of
             (Raised e, w1) \<Rightarrow> Some (Raised e, w1)
           | (Returned operation', w1) \<Rightarrow> poll sys c operation' w1) = Some r"
  show "\<not> (\<exists>h x. h 0 = operation \<and> x 0 = ext w \<and>
            (\<forall>i. \<not> op_done (h i) \<and>
               operations_get sys c (h i) (x i) = (Returned (h (Suc i)), x (Suc i))))"
  proof
    assume "\<exists>h x. h 0 = operation \<and> x 0 = ext w \<and>
            (\<forall>i. \<not> op_done (h i) \<and>
               operations_get sys c (h i) (x i) = (Returned (h (Suc i)), x (Suc i)))"
    then obtain h x where hx: "h 0 = operation" "x 0 = ext w"
      "\<forall>i. \<not> op_done (h i) \<and>
           operations_get sys c (h i) (x i) = (Returned (h (Suc i)), x (Suc i))"
      by blast
    have nd: "\<not> op_done operation" using hx(1) hx(3) by metis
    have get: "operations_get sys c operation (ext w) = (Returned (h 1), x 1)"
      using hx by (metis One_nat_def)
    let ?w = "w\<lparr>sleeps := sleeps w @ [15], ext := x 1\<rparr>"
    have rec: "poll sys c (h 1) ?w = Some r"
      using body nd get by (simp add: call_def)
    have "\<not> (\<exists>h' x'. h' 0 = h 1 \<and> x' 0 = ext ?w \<and>
            (\<forall>i. \<not> op_done (h' i) \<and>
               operations_get sys c (h' i) (x' i) = (Returned (h' (Suc i)), x' (Suc i))))"
      using rec by (rule IH)
    moreover have "(h \<circ> Suc) 0 = h 1 \<and> (x \<circ> Suc) 0 = ext ?w \<and>
            (\<forall>i. \<not> op_done ((h \<circ> Suc) i) \<and>
               operations_get sys c ((h \<circ> Suc) i) ((x \<circ> Suc) i) =
               (Returned ((h \<circ> Suc) (Suc i)), (x \<circ> Suc) (Suc i)))"
      using hx(3) by simp
    ultimately show False by blast
  qed
qed

text \<open>
  Claim C9: while \<^verbatim>\<open>operation.done\<close> is false the loop sleeps for the poll interval
  (15 seconds) and replaces the operation by the one fetched again; it hands on the
  operation of the first state in which \<^verbatim>\<open>done\<close> is true, from which lines 200 to 219
  read the result; and it has no bound, so that it never ends when no fetched operation
  is ever done. \<open>h i\<close> is the operation after \<open>i\<close> fetches and \<open>x i\<close> the outside state
  then.
\<close>

theorem poll_operation_unbounded:
  "(ext w = x 0 \<and>
    (\<forall>i. \<not> op_done (h i) \<and>
         operations_get sys c (h i) (x i) = (Returned (h (Suc i)), x (Suc i)))
    \<longrightarrow> poll_operation sys c (h 0) w = None) \<and>
   (ext w = x 0 \<and> op_done (h n) \<and>
    (\<forall>i<n. \<not> op_done (h i) \<and>
         operations_get sys c (h i) (x i) = (Returned (h (Suc i)), x (Suc i)))
    \<longrightarrow> poll_operation sys c (h 0) w =
          Some (Returned (h n), w\<lparr>sleeps := sleeps w @ replicate n 15, ext := x n\<rparr>))"
proof (intro conjI impI)
  assume a: "ext w = x 0 \<and>
    (\<forall>i. \<not> op_done (h i) \<and>
         operations_get sys c (h i) (x i) = (Returned (h (Suc i)), x (Suc i)))"
  show "poll_operation sys c (h 0) w = None"
  proof (cases "poll_operation sys c (h 0) w")
    case None
    then show ?thesis .
  next
    case (Some r)
    from poll_never_done [OF Some] a show ?thesis by metis
  qed
next
  assume "ext w = x 0 \<and> op_done (h n) \<and>
    (\<forall>i<n. \<not> op_done (h i) \<and>
         operations_get sys c (h i) (x i) = (Returned (h (Suc i)), x (Suc i)))"
  then show "poll_operation sys c (h 0) w =
          Some (Returned (h n), w\<lparr>sleeps := sleeps w @ replicate n 15, ext := x n\<rparr>)"
    using poll_reaches_done [of h n sys c x w] by simp
qed

theorem poll_operation_unbounded_witness:
  "poll_operation (stub_services image_ok pending) demo_client pending (fresh 0) = None \<and>
   poll_operation (stub_services image_ok uri_only) demo_client pending (fresh 2) =
     Some (Returned uri_only, \<lparr>invocations = 0, sleeps = [15, 15, 15], files = Map.empty, ext = 0\<rparr>)"
proof -
  have never: "ext (fresh 0) = (\<lambda>i::nat. 0::nat) 0 \<and>
    (\<forall>i. \<not> op_done ((\<lambda>i::nat. pending) i) \<and>
         operations_get (stub_services image_ok pending) demo_client ((\<lambda>i::nat. pending) i) ((\<lambda>i::nat. 0::nat) i) =
         (Returned ((\<lambda>i::nat. pending) (Suc i)), (\<lambda>i::nat. 0::nat) (Suc i)))"
    by (simp add: fresh_def pending_def stub_services_def)
  define h where "h = (\<lambda>i::nat. if i < 3 then pending else uri_only)"
  define x where "x = (\<lambda>i::nat. 2 - i)"
  have third: "ext (fresh 2) = x 0 \<and> op_done (h 3) \<and>
    (\<forall>i<3. \<not> op_done (h i) \<and>
         operations_get (stub_services image_ok uri_only) demo_client (h i) (x i) =
         (Returned (h (Suc i)), x (Suc i)))"
    by (simp add: fresh_def pending_def uri_only_def finished_def stub_services_def h_def x_def
        less_Suc_eq numeral_3_eq_3)
  show ?thesis
    using poll_operation_unbounded [of "fresh 0" "\<lambda>i. 0" "\<lambda>i. pending" "stub_services image_ok pending" demo_client]
      poll_operation_unbounded [of "fresh 2" x h "stub_services image_ok uri_only" demo_client 3] never third
    by (simp add: h_def x_def fresh_def numeral_3_eq_3)
qed

section \<open>Properties of \<^verbatim>\<open>create_clip\<close>\<close>

lemma retry_loop_final:
  assumes "func w = Some (r, t)"
    and "case r of Raised e \<Rightarrow> \<not> transient e | Returned v \<Rightarrow> True"
  shows "retry_loop uniform func (attempt # rest) lst w =
         Some (r, t\<lparr>invocations := Suc (invocations w)\<rparr>)"
proof (cases r)
  case (Returned v)
  then show ?thesis using assms(1) by simp
next
  case (Raised e)
  then show ?thesis using assms by (cases e) (simp_all add: transient_def)
qed

lemma retry_on_429_final:
  assumes "0 < max_retries"
    and "func w = Some (r, t)"
    and "case r of Raised e \<Rightarrow> \<not> transient e | Returned v \<Rightarrow> True"
  shows "retry_on_429 max_retries uniform func w = Some (r, t\<lparr>invocations := Suc (invocations w)\<rparr>)"
proof -
  obtain k where "nat max_retries = Suc k"
    using assms(1) by (cases "nat max_retries") auto
  then have "[0 ..< nat max_retries] = 0 # [Suc 0 ..< Suc k]"
    using upt_conv_Cons [of 0 "Suc k"] by simp
  then show ?thesis
    unfolding retry_on_429_def using retry_loop_final [where func = func and w = w, OF assms(2,3)] by simp
qed

lemma setup_image_client_stub:
  "setup_image_client (stub_services reply final) w =
     (Returned \<lparr>project = Some ''demo'', location = ''global'', credentials = ''token''\<rparr>, w)"
  by (simp add: setup_image_client_def stub_services_def falsy_def call_def)

lemma setup_video_client_stub:
  "setup_video_client (stub_services reply final) w = (Returned demo_client, w)"
  by (simp add: setup_video_client_def stub_services_def call_def demo_client_def)

lemma generate_image_stub:
  "generate_image (stub_services image_ok final) 8 c prompt aspect p w =
     Some (Returned p, w\<lparr>files := (files w)(p \<mapsto> ''PNG''), invocations := Suc (invocations w)\<rparr>)"
  unfolding generate_image_def
  by (rule retry_on_429_final [THEN trans])
     (simp_all add: generate_image_body_def save_response_image_def call_def stub_services_def image_ok_def)

lemma generate_image_no_image:
  "generate_image (stub_services no_image final) 8 c prompt aspect p w =
     Some (Raised (SystemExit 1), w\<lparr>invocations := Suc (invocations w)\<rparr>)"
  unfolding generate_image_def
  by (rule retry_on_429_final [THEN trans])
     (simp_all add: generate_image_body_def save_response_image_def call_def stub_services_def
        no_image_def transient_def)

lemma generate_variation_stub:
  "files w ref = Some b \<Longrightarrow>
   generate_variation (stub_services image_ok final) 8 c ref prompt aspect p w =
     Some (Returned p, w\<lparr>files := (files w)(p \<mapsto> ''PNG''), invocations := Suc (invocations w)\<rparr>)"
  unfolding generate_variation_def
  by (rule retry_on_429_final [THEN trans])
     (simp_all add: generate_variation_body_def read_file_def save_response_image_def call_def
        stub_services_def image_ok_def)

lemma poll_stub_counted:
  "op_done final \<Longrightarrow> ext w = n \<Longrightarrow>
   poll_operation (stub_services reply final) c pending w =
     Some (Returned final, w\<lparr>sleeps := sleeps w @ replicate (Suc n) 15, ext := 0\<rparr>)"
proof (induction n arbitrary: w)
  case 0
  have "poll_operation (stub_services reply final) c pending w =
        poll_operation (stub_services reply final) c final (w\<lparr>sleeps := sleeps w @ [15], ext := 0\<rparr>)"
    by (rule poll_step) (simp_all add: pending_def stub_services_def 0)
  then show ?case using 0 by (simp add: poll_done)
next
  case (Suc n)
  have "poll_operation (stub_services reply final) c pending w =
        poll_operation (stub_services reply final) c pending (w\<lparr>sleeps := sleeps w @ [15], ext := n\<rparr>)"
    by (rule poll_step) (simp_all add: pending_def stub_services_def Suc.prems)
  then show ?case using Suc.IH [of "w\<lparr>sleeps := sleeps w @ [15], ext := n\<rparr>"] Suc.prems(1)
    by (simp add: replicate_app_Cons_same)
qed

lemma poll_stub:
  "op_done final \<Longrightarrow>
   poll_operation (stub_services reply final) c pending w =
     Some (Returned final, w\<lparr>sleeps := sleeps w @ replicate (Suc (ext w)) 15, ext := 0\<rparr>)"
  by (rule poll_stub_counted) simp_all

lemma stub_generate_videos:
  "generate_videos (stub_services reply final) c m prompt img cfg x = (Returned pending, x)"
  by (simp add: stub_services_def)

lemma generate_video_body_stub:
  assumes "op_done final" "files w first = Some b1" "files w lst = Some b2"
  shows "generate_video_body (stub_services reply final) c first lst prompt aspect d p w =
     Some (extract_video (stub_services reply final) final p
             (w\<lparr>sleeps := sleeps w @ replicate (Suc (ext w)) 15, ext := 0\<rparr>))"
  using assms
  by (simp add: generate_video_body_def and_then_def read_file_def call_def
      stub_generate_videos poll_stub)

lemma extract_uri_only:
  "extract_video sys uri_only p w = (Returned None, w)"
  by (simp add: extract_video_def uri_only_def finished_def save_video_def truthy_media_def falsy_def)

lemma extract_nothing:
  "extract_video sys (finished []) p w = (Returned None, w)"
  by (simp add: extract_video_def finished_def)

lemma op_done_uri_only: "op_done uri_only"
  by (simp add: uri_only_def finished_def)

lemma op_done_finished: "op_done (finished videos)"
  by (simp add: finished_def)

lemma generate_video_stub_uri_only:
  assumes "files w first = Some b1" "files w lst = Some b2"
  shows "generate_video (stub_services reply uri_only) 8 c first lst prompt aspect d p w =
     Some (Returned None,
           w\<lparr>sleeps := sleeps w @ replicate (Suc (ext w)) 15, ext := 0,
             invocations := Suc (invocations w)\<rparr>)"
  unfolding generate_video_def
  by (rule retry_on_429_final [THEN trans])
     (simp_all add: generate_video_body_stub [OF op_done_uri_only assms] extract_uri_only)

lemma generate_video_stub_nothing:
  assumes "files w first = Some b1" "files w lst = Some b2"
  shows "generate_video (stub_services reply (finished [])) 8 c first lst prompt aspect d p w =
     Some (Returned None,
           w\<lparr>sleeps := sleeps w @ replicate (Suc (ext w)) 15, ext := 0,
             invocations := Suc (invocations w)\<rparr>)"
  unfolding generate_video_def
  by (rule retry_on_429_final [THEN trans])
     (simp_all add: generate_video_body_stub [OF op_done_finished assms] extract_nothing)

text \<open>
  Claim C2 says that a run whose video operation ends with only a storage reference
  returns an artifact whose video path is null. Here the service's finished operation
  carries the URI \<^verbatim>\<open>gs://bucket/clip.mp4\<close> and no bytes; it is done at the second
  status call. \<^verbatim>\<open>generate_video\<close> returns \<^verbatim>\<open>None\<close> and writes no file, but
  \<^verbatim>\<open>create_clip\<close> does not look at what it returns: the run completes and the
  dictionary names \<^verbatim>\<open>output/t1/clip.mp4\<close> as the video, a file that does not exist.
\<close>

theorem create_clip_uri_only_returns_clip_path:
  "create_clip (stub_services image_ok uri_only) 8 demo_config (fresh 1) =
     Some (Returned
             [(''clip_id'', Some ''t1''),
              (''start'', Some ''output/t1/start.png''),
              (''end'', Some ''output/t1/end.png''),
              (''video'', Some ''output/t1/clip.mp4'')],
           \<lparr>invocations = 3, sleeps = [15, 15],
            files = [''output/t1/start.png'' \<mapsto> ''PNG'', ''output/t1/end.png'' \<mapsto> ''PNG''],
            ext = 0\<rparr>)"
  by (simp add: create_clip_def demo_config_def joinpath_def and_then_def fresh_def Path_bool_def
      setup_image_client_stub setup_video_client_stub generate_image_stub generate_variation_stub
      generate_video_stub_uri_only numeral_2_eq_2 numeral_3_eq_3 Let_def)

text \<open>
  Claim C3 says that a successful response without an artifact aborts the run in every
  stage and is never retried. With a finished video operation that has no generated
  video, \<^verbatim>\<open>generate_video\<close> returns \<^verbatim>\<open>None\<close> after one invocation and the run
  completes as if a video had been made (first part). The image stage does what the
  claim says: a response without an image part ends the run with \<^verbatim>\<open>sys.exit(1)\<close>
  after a single invocation (second part).
\<close>

theorem create_clip_no_video_completes:
  "create_clip (stub_services image_ok (finished [])) 8 demo_config (fresh 1) =
     Some (Returned
             [(''clip_id'', Some ''t1''),
              (''start'', Some ''output/t1/start.png''),
              (''end'', Some ''output/t1/end.png''),
              (''video'', Some ''output/t1/clip.mp4'')],
           \<lparr>invocations = 3, sleeps = [15, 15],
            files = [''output/t1/start.png'' \<mapsto> ''PNG'', ''output/t1/end.png'' \<mapsto> ''PNG''],
            ext = 0\<rparr>) \<and>
   create_clip (stub_services no_image uri_only) 8 demo_config (fresh 1) =
     Some (Raised (SystemExit 1), \<lparr>invocations = 1, sleeps = [], files = Map.empty, ext = 1\<rparr>)"
  by (simp add: create_clip_def demo_config_def joinpath_def and_then_def fresh_def Path_bool_def
      setup_image_client_stub setup_video_client_stub generate_image_stub generate_variation_stub
      generate_video_stub_nothing generate_image_no_image numeral_2_eq_2 numeral_3_eq_3 Let_def)

section \<open>Properties of \<^verbatim>\<open>chain_clips\<close>\<close>









lemma stub_run_probe:
  "run (stub_system probe) (ffprobe_cmd p) w =
     (Returned (probe p), \<lparr>commands = commands w @ [ffprobe_cmd p], outside = outside w\<rparr>)"
  by (simp add: run_def stub_system_def ffprobe_cmd_def)

lemma stub_duration_four:
  "get_video_duration (stub_system four_seconds) p w =
     (Returned 4, \<lparr>commands = commands w @ [ffprobe_cmd p], outside = outside w\<rparr>)"
  by (simp add: get_video_duration_def stub_run_probe)
     (simp add: four_seconds_def stub_system_def strip_def is_space_def decimal_def unsigned_decimal_def digit_of_def)

lemma stub_find_clip_video:
  "find_clip_video (stub_system probe) clip_dir x = Returned (joinpath clip_dir ''clip.mp4'')"
  by (simp add: find_clip_video_def stub_system_def)

lemma stub_path_exists: "path_exists (stub_system probe) p x"
  by (simp add: stub_system_def)

lemma stub_collect_two:
  "collect_clips (stub_system four_seconds) [''a'', ''b''] [] 0 start =
     (Returned ([''a/clip.mp4'', ''b/clip.mp4''], 8),
      \<lparr>commands = [ffprobe_cmd ''a/clip.mp4'', ffprobe_cmd ''b/clip.mp4''], outside = ()\<rparr>)"
  by (simp add: stub_path_exists stub_find_clip_video stub_duration_four joinpath_def start_def)

lemma stub_mkdir: "mkdir (stub_system probe) p x = (Returned (), x)"
  by (simp add: stub_system_def)

lemma stub_run_ffmpeg:
  "run_or_exit (stub_system probe) (''ffmpeg'' # cmd) w =
     (Returned (), \<lparr>commands = commands w @ [''ffmpeg'' # cmd], outside = outside w\<rparr>)"
  by (simp add: run_or_exit_def run_def stub_system_def)

lemma stub_report_four:
  "report (stub_system four_seconds) p w =
     (Returned p, \<lparr>commands = commands w @ [ffprobe_cmd p], outside = outside w\<rparr>)"
  by (simp add: report_def stub_duration_four) (simp add: stub_system_def)



text \<open>
  Claim C1 says that the offset of each cross-dissolve is \<open>D - f\<close>, with \<open>D\<close> the measured
  duration of what precedes the fade: 3.0 for two clips of 4.0 seconds and a fade of
  1.0. Here both clips measure 4.0 seconds and the fade is 1.0; the filter that
  \<^verbatim>\<open>chain_clips\<close> hands to \<^verbatim>\<open>ffmpeg\<close> has the offset 3.5 that line 101 spells out,
  not 3.0. For three such clips the second offset is the 7 of line 117, where the fused
  first pair lasts \<open>4 + 4 - 1\<close> seconds and \<open>D - f\<close> is 6.
\<close>

theorem crossfade_offset_hard_coded:
  "fst (get_video_duration (stub_system four_seconds) ''a/clip.mp4'' start) = Returned 4 \<and>
   fst (get_video_duration (stub_system four_seconds) ''b/clip.mp4'' start) = Returned 4 \<and>
   chain_clips (stub_system four_seconds) [''a'', ''b''] ''out/final.mp4'' 1 False start =
     (Returned ''out/final.mp4'',
      \<lparr>commands =
         [ffprobe_cmd ''a/clip.mp4'', ffprobe_cmd ''b/clip.mp4'',
          [''ffmpeg'', ''-y'', ''-i'', ''a/clip.mp4'', ''-i'', ''b/clip.mp4'', ''-filter_complex'',
           ''[0:v][1:v]xfade=transition=fade:duration=1.0:offset=3.5[v]'',
           ''-map'', ''[v]'', ''-c:v'', ''libx264'', ''-preset'', ''fast'', ''-crf'', ''23'',
           ''out/final.mp4''],
          ffprobe_cmd ''out/final.mp4''],
       outside = ()\<rparr>) \<and>
   decimal ''3.5'' = Some (7 / 2) \<and> (7 / 2 :: real) \<noteq> 4 - 1 \<and>
   crossfade_cmd (stub_system four_seconds) [''a/clip.mp4'', ''b/clip.mp4'', ''c/clip.mp4'']
       ''out/final.mp4'' 1 =
     Returned
       [''ffmpeg'', ''-y'', ''-i'', ''a/clip.mp4'', ''-i'', ''b/clip.mp4'', ''-i'', ''c/clip.mp4'',
        ''-filter_complex'',
        ''[0:v][1:v]xfade=transition=fade:duration=1.0:offset=3.5[v01];[v01][2:v]xfade=transition=fade:duration=1.0:offset=7[v]'',
        ''-map'', ''[v]'', ''-c:v'', ''libx264'', ''-preset'', ''fast'', ''-crf'', ''23'',
        ''out/final.mp4''] \<and>
   decimal ''7'' = Some 7 \<and> (7 :: real) \<noteq> (4 + 4 - 1) - 1"
proof -
  have fade: "str_of_float (stub_system four_seconds) 1 = ''1.0''"
    by (simp add: stub_system_def one_decimal_def str_of_nat.simps digit_def)
  have chain: "chain_clips (stub_system four_seconds) [''a'', ''b''] ''out/final.mp4'' 1 False start =
     (Returned ''out/final.mp4'',
      \<lparr>commands =
         [ffprobe_cmd ''a/clip.mp4'', ffprobe_cmd ''b/clip.mp4'',
          [''ffmpeg'', ''-y'', ''-i'', ''a/clip.mp4'', ''-i'', ''b/clip.mp4'', ''-filter_complex'',
           ''[0:v][1:v]xfade=transition=fade:duration=1.0:offset=3.5[v]'',
           ''-map'', ''[v]'', ''-c:v'', ''libx264'', ''-preset'', ''fast'', ''-crf'', ''23'',
           ''out/final.mp4''],
          ffprobe_cmd ''out/final.mp4''],
       outside = ()\<rparr>)"
    by (simp only: chain_clips_def stub_collect_two)
       (simp add: stub_mkdir concatenate_def concat_with_crossfade_def crossfade_cmd_def
          xfade_def encode_options_def fade stub_run_ffmpeg stub_report_four)
  have three: "crossfade_cmd (stub_system four_seconds) [''a/clip.mp4'', ''b/clip.mp4'', ''c/clip.mp4'']
       ''out/final.mp4'' 1 =
     Returned
       [''ffmpeg'', ''-y'', ''-i'', ''a/clip.mp4'', ''-i'', ''b/clip.mp4'', ''-i'', ''c/clip.mp4'',
        ''-filter_complex'',
        ''[0:v][1:v]xfade=transition=fade:duration=1.0:offset=3.5[v01];[v01][2:v]xfade=transition=fade:duration=1.0:offset=7[v]'',
        ''-map'', ''[v]'', ''-c:v'', ''libx264'', ''-preset'', ''fast'', ''-crf'', ''23'',
        ''out/final.mp4'']"
    by (simp add: crossfade_cmd_def xfade_def encode_options_def fade)
  have offsets: "decimal ''3.5'' = Some (7 / 2)" "decimal ''7'' = Some 7"
    by (simp_all add: decimal_def unsigned_decimal_def digit_of_def)
  show ?thesis
    unfolding chain three offsets by (simp add: stub_duration_four)
qed

text \<open>
  Claim C10, as stated, also has a probe with unreadable output give 0.0. A probe that
  exits with code 0 and prints \<^verbatim>\<open>N/A\<close> makes \<^verbatim>\<open>float\<close> raise \<^verbatim>\<open>ValueError\<close>, which
  \<^verbatim>\<open>get_video_duration\<close> does not catch.
\<close>

theorem unreadable_probe_output_raises_counterexample:
  "get_video_duration (stub_system not_available) ''a/clip.mp4'' start =
     (Raised (Exception ''ValueError'' (''could not convert string to float: '' @ [CHR 0x27] @ ''N/A'' @ [CHR 0x27])),
      \<lparr>commands = [ffprobe_cmd ''a/clip.mp4''], outside = ()\<rparr>)"
  by (simp add: get_video_duration_def stub_run_probe start_def)
     (simp add: not_available_def stub_system_def strip_def is_space_def decimal_def
        unsigned_decimal_def digit_of_def)

text \<open>
  Claim C10, amended: when the probe exits with a non-zero code,
  \<^verbatim>\<open>get_video_duration\<close> returns 0.0 and raises nothing, and the loop of
  \<^verbatim>\<open>chain_clips\<close> goes on to the next directory with the sum of durations unchanged;
  when the probe exits with code 0 and its output is not a number, the
  \<^verbatim>\<open>ValueError\<close> propagates.
\<close>

theorem probe_exit_code_gives_zero:
  assumes "subprocess_run sys (ffprobe_cmd video_path) (outside w) = (Returned r, x)"
  shows "(returncode r \<noteq> 0 \<longrightarrow>
          get_video_duration sys video_path w =
            (Returned 0, \<lparr>commands = commands w @ [ffprobe_cmd video_path], outside = x\<rparr>)) \<and>
         (returncode r \<noteq> 0 \<and> path_exists sys clip_dir (outside w) \<and>
          find_clip_video sys clip_dir (outside w) = Returned video_path \<longrightarrow>
          collect_clips sys (clip_dir # rest) clip_paths total_duration w =
            collect_clips sys rest (clip_paths @ [video_path]) total_duration
              \<lparr>commands = commands w @ [ffprobe_cmd video_path], outside = x\<rparr>) \<and>
         (returncode r = 0 \<and> float_of_str sys (strip (stdout r)) = None \<longrightarrow>
          get_video_duration sys video_path w =
            (Raised (Exception ''ValueError''
               (''could not convert string to float: '' @ [CHR 0x27] @ strip (stdout r) @ [CHR 0x27])),
             \<lparr>commands = commands w @ [ffprobe_cmd video_path], outside = x\<rparr>))"
  using assms by (simp add: get_video_duration_def run_def)

theorem probe_exit_code_gives_zero_witness:
  "get_video_duration (stub_system probe_fails) ''a/clip.mp4'' start =
     (Returned 0, \<lparr>commands = [ffprobe_cmd ''a/clip.mp4''], outside = ()\<rparr>) \<and>
   collect_clips (stub_system probe_fails) [''a''] [] 0 start =
     (Returned ([''a/clip.mp4''], 0), \<lparr>commands = [ffprobe_cmd ''a/clip.mp4''], outside = ()\<rparr>) \<and>
   get_video_duration (stub_system not_available) ''a/clip.mp4'' start =
     (Raised (Exception ''ValueError'' (''could not convert string to float: '' @ [CHR 0x27] @ ''N/A'' @ [CHR 0x27])),
      \<lparr>commands = [ffprobe_cmd ''a/clip.mp4''], outside = ()\<rparr>)"
proof -
  have failing: "subprocess_run (stub_system probe_fails) (ffprobe_cmd ''a/clip.mp4'') (outside start) =
      (Returned (probe_fails ''a/clip.mp4''), ())"
    by (simp add: stub_system_def ffprobe_cmd_def)
  have unreadable: "subprocess_run (stub_system not_available) (ffprobe_cmd ''a/clip.mp4'') (outside start) =
      (Returned (not_available ''a/clip.mp4''), ())"
    by (simp add: stub_system_def ffprobe_cmd_def)
  have code: "returncode (probe_fails ''a/clip.mp4'') \<noteq> 0" "returncode (not_available ''a/clip.mp4'') = 0"
    by (simp_all add: probe_fails_def not_available_def)
  have found: "path_exists (stub_system probe_fails) ''a'' (outside start)"
    "find_clip_video (stub_system probe_fails) ''a'' (outside start) = Returned ''a/clip.mp4''"
    by (simp_all add: stub_path_exists stub_find_clip_video joinpath_def)
  have parse: "float_of_str (stub_system not_available) (strip (stdout (not_available ''a/clip.mp4''))) = None"
    by (simp add: not_available_def stub_system_def strip_def is_space_def decimal_def
        unsigned_decimal_def digit_of_def)
  have stripped: "strip (stdout (not_available ''a/clip.mp4'')) = ''N/A''"
    by (simp add: not_available_def strip_def is_space_def)
  show ?thesis
    using probe_exit_code_gives_zero [OF failing, of "''a''" "[]" "[]" 0] probe_exit_code_gives_zero [OF unreadable, of "''a''" "[]" "[]" 0]
      code found parse stripped
    by (simp add: start_def)
qed

end
